theory Spec2Isabelle
  imports Complex_Main "HOL-Library.AList" "HOL-Library.Product_Lexorder"
begin

text \<open>
  A model of the synchronisation core of the traffic dashboard backend: the socket handlers
  (\<open>socketHandlers.js\<close>), the REST routers for signals and cameras, the live analytics
  rollup, the hourly trend of the dashboard route, and the handlers and the simulator of
  \<open>index.js\<close>. A handler is a function from its inputs and the state (the stored
  documents and the group memberships) to the new state and the list of messages it emits.
  Whatever the environment decides (whether an awaited store call rejects, the clock,
  random numbers, fresh ids, whether a token verifies) is an explicit input.
\<close>

section \<open>JavaScript values\<close>

text \<open>
  Request bodies, socket payloads and stored documents are JSON-like values. A property
  that is missing reads as \<open>JUndef\<close>. Numbers carried in payloads are integers; a
  \<open>Date\<close> is represented by its epoch milliseconds (\<open>getTime()\<close>). Fractional numbers
  arise only as results of \<open>$avg\<close>: such a result is a double, represented by the
  rational number it denotes, in a typed aggregation row.
\<close>

datatype jv =
    JUndef
  | JNull
  | JBool bool
  | JNum int
  | JStr string
  | JArr "jv list"
  | JObj "(string \<times> jv) list"

datatype js_error = StoreError

text \<open>Truthiness, as used by \<open>!x\<close>, \<open>a || b\<close> and \<open>if (x)\<close>.\<close>

fun truthy :: "jv \<Rightarrow> bool" where
  "truthy JUndef = False"
| "truthy JNull = False"
| "truthy (JBool b) = b"
| "truthy (JNum n) = (n \<noteq> 0)"
| "truthy (JStr s) = (s \<noteq> [])"
| "truthy (JArr xs) = True"
| "truthy (JObj fs) = True"

definition js_or :: "jv \<Rightarrow> jv \<Rightarrow> jv" where
  "js_or a b = (if truthy a then a else b)"

text \<open>
  Property access \<open>v.k\<close> (and the destructuring \<open>const { k } = v\<close>) throws a
  TypeError exactly when \<open>v\<close> is \<open>undefined\<close> or \<open>null\<close> (\<open>nullish\<close>); otherwise it
  yields the field of an object and \<open>undefined\<close> for any other value. None of the
  property names read by the handlers is a built-in property of a primitive or an array.
\<close>

definition nullish :: "jv \<Rightarrow> bool" where
  "nullish v = (v = JUndef \<or> v = JNull)"

fun field :: "jv \<Rightarrow> string \<Rightarrow> jv" where
  "field (JObj fs) k = (case map_of fs k of None \<Rightarrow> JUndef | Some v \<Rightarrow> v)"
| "field v k = JUndef"

text \<open>
  String conversion, as performed by a template literal (for a number: below
  \<open>10\<^sup>2\<^sup>1\<close> in magnitude, where the decimal digits are printed in full).
\<close>

definition digit :: "nat \<Rightarrow> char" where
  "digit n = ''0123456789'' ! (n mod 10)"

fun show_nat :: "nat \<Rightarrow> string" where
  "show_nat n = (if n < 10 then [digit n] else show_nat (n div 10) @ [digit n])"

declare show_nat.simps [simp del]

definition show_int :: "int \<Rightarrow> string" where
  "show_int i = (if i < 0 then CHR ''-'' # show_nat (nat (- i)) else show_nat (nat i))"

fun join :: "string list \<Rightarrow> string" where
  "join [] = []"
| "join [s] = s"
| "join (s # t # ss) = s @ '','' @ join (t # ss)"

fun toString :: "jv \<Rightarrow> string" where
  "toString JUndef = ''undefined''"
| "toString JNull = ''null''"
| "toString (JBool b) = (if b then ''true'' else ''false'')"
| "toString (JNum n) = show_int n"
| "toString (JStr s) = s"
| "toString (JArr xs) =
     join (map (\<lambda>x. if x = JUndef \<or> x = JNull then [] else toString x) xs)"
| "toString (JObj fs) = ''[object Object]''"

section \<open>Device Store\<close>

text \<open>
  The store is the external collaborator of the handlers: one collection of camera
  documents, one of signal documents, and the analytics samples. A collection is an
  association list from the document id to the document's fields, in insertion order.
  Every awaited store call may reject (an id or a value that cannot be cast, an update
  that would change \<open>_id\<close>, a lost connection); whether it does is an input \<open>ok\<close> of the
  handler, and a rejected call leaves the collection as it was.
\<close>

type_synonym doc = "(string \<times> jv) list"
type_synonym coll = "(jv \<times> doc) list"

text \<open>
  The object mapper writes through the schema of the model (\<open>models/Camera.js\<close>,
  \<open>models/Signal.js\<close>, the schemas of \<open>index.js\<close>), in strict mode: a key of an update
  that is not a path of the schema is dropped, at the top level and inside the object
  given for a nested path. A schema is the tree of its paths; \<open>Leaf\<close> is a path with a
  type (a string, a number, a boolean, a date, an array). The path \<open>_id\<close> is not listed:
  an update that succeeds leaves it as it is. The conversion of a value to the type of
  its path is not modelled for device records: the values of a request are taken to have the
  types of their paths, and a value that is not an object, given for a nested path, is
  kept as it is, as are the elements of an array.
\<close>

datatype schema = Leaf | Nested "(string \<times> schema) list"

fun strict_value :: "schema \<Rightarrow> jv \<Rightarrow> jv"
  and strict_fields :: "(string \<times> schema) list \<Rightarrow> (string \<times> jv) list \<Rightarrow> (string \<times> jv) list"
  and strict_key :: "(string \<times> schema) list \<Rightarrow> string \<Rightarrow> jv \<Rightarrow> (string \<times> jv) list" where
  "strict_value Leaf v = v"
| "strict_value (Nested ps) (JObj fs) = JObj (strict_fields ps fs)"
| "strict_value (Nested ps) v = v"
| "strict_fields ps [] = []"
| "strict_fields ps ((k, v) # fs) = strict_key ps k v @ strict_fields ps fs"
| "strict_key [] k v = []"
| "strict_key ((k', s) # ps) k v =
     (if k' = k then [(k, strict_value s v)] else strict_key ps k v)"

definition CameraSchema :: "(string \<times> schema) list" where
  "CameraSchema =
     [(''name'', Leaf), (''location'', Leaf),
      (''coordinates'', Nested [(''lat'', Leaf), (''lng'', Leaf)]),
      (''ipAddress'', Leaf), (''model'', Leaf), (''firmware'', Leaf), (''status'', Leaf),
      (''lastSeen'', Leaf),
      (''metrics'',
       Nested [(''vehicleCount'', Leaf), (''congestionLevel'', Leaf), (''averageSpeed'', Leaf),
               (''vehicleTypes'',
                Nested [(''cars'', Leaf), (''motorcycles'', Leaf), (''trucks'', Leaf)])]),
      (''settings'',
       Nested [(''resolution'', Leaf), (''frameRate'', Leaf), (''nightMode'', Leaf),
               (''brightness'', Leaf), (''contrast'', Leaf)]),
      (''createdAt'', Leaf)]"

definition SignalSchema :: "(string \<times> schema) list" where
  "SignalSchema =
     [(''name'', Leaf), (''location'', Leaf),
      (''coordinates'', Nested [(''lat'', Leaf), (''lng'', Leaf)]),
      (''ipAddress'', Leaf), (''status'', Leaf), (''mode'', Leaf), (''currentPhase'', Leaf),
      (''remainingTime'', Leaf), (''congestionLevel'', Leaf), (''lastSeen'', Leaf),
      (''settings'',
       Nested [(''phases'', Leaf),
               (''schedule'', Nested [(''enabled'', Leaf), (''timings'', Leaf)])]),
      (''createdAt'', Leaf)]"

text \<open>The schemas that \<open>index.js\<close> declares for its own handlers.\<close>

definition cameraSchema :: "(string \<times> schema) list" where
  "cameraSchema =
     [(''name'', Leaf), (''location'', Leaf), (''ipAddress'', Leaf), (''status'', Leaf),
      (''model'', Leaf), (''firmware'', Leaf), (''lastUpdate'', Leaf)]"

definition signalSchema :: "(string \<times> schema) list" where
  "signalSchema =
     [(''name'', Leaf), (''location'', Leaf), (''status'', Leaf), (''mode'', Leaf),
      (''currentPhase'', Leaf), (''remainingTime'', Leaf), (''congestionLevel'', Leaf),
      (''lastUpdate'', Leaf)]"

text \<open>\<open>$set\<close>: a key whose value is \<open>undefined\<close> is left out of the update.\<close>

fun set_fields :: "(string \<times> jv) list \<Rightarrow> doc \<Rightarrow> doc" where
  "set_fields [] d = d"
| "set_fields ((k, v) # u) d =
     set_fields u (if v = JUndef then d else AList.update k v d)"

definition findById :: "bool \<Rightarrow> coll \<Rightarrow> jv \<Rightarrow> js_error + jv" where
  "findById ok c i =
     (if \<not> ok then Inl StoreError
      else case map_of c i of None \<Rightarrow> Inr JNull | Some d \<Rightarrow> Inr (JObj d))"

text \<open>
  \<open>findByIdAndUpdate(id, update, { new: true })\<close> of the model with schema \<open>ps\<close>: the
  document after the update, or null.
\<close>

definition findByIdAndUpdate ::
  "(string \<times> schema) list \<Rightarrow> bool \<Rightarrow> coll \<Rightarrow> jv \<Rightarrow> (string \<times> jv) list \<Rightarrow>
     js_error + (jv \<times> coll)" where
  "findByIdAndUpdate ps ok c i u =
     (if \<not> ok then Inl StoreError
      else case map_of c i of
             None \<Rightarrow> Inr (JNull, c)
           | Some d \<Rightarrow>
               Inr (JObj (set_fields (strict_fields ps u) d),
                    AList.update i (set_fields (strict_fields ps u) d) c))"

definition findByIdAndDelete :: "bool \<Rightarrow> coll \<Rightarrow> jv \<Rightarrow> js_error + (jv \<times> coll)" where
  "findByIdAndDelete ok c i =
     (if \<not> ok then Inl StoreError
      else case map_of c i of
             None \<Rightarrow> Inr (JNull, c)
           | Some d \<Rightarrow> Inr (JObj d, AList.delete i c))"

text \<open>
  The argument of \<open>$set\<close> when it is taken from a payload (\<open>{ $set: data.settings }\<close>):
  the object mapper rejects an update whose \<open>$set\<close> is not an object. The keys of an
  array are its indices, which are paths of no schema.
\<close>

fun set_arg :: "jv \<Rightarrow> js_error + (string \<times> jv) list" where
  "set_arg (JObj fs) = Inr fs"
| "set_arg (JArr xs) = Inr (zip (map show_nat [0..<length xs]) xs)"
| "set_arg v = Inl StoreError"

section \<open>Analytics samples\<close>

record sample =
  timestamp :: int
  trafficVolume :: jv
  congestionLevel :: jv
  averageSpeed :: jv
  vehicleTypes :: jv
  junctionId :: jv

text \<open>The row produced by the \<open>$group\<close> stage of the live rollup (\<open>_id: null\<close>).\<close>

record rollup =
  group_id :: jv
  averageTrafficVolume :: "rat option"
  averageSpeed :: "rat option"
  vehicleTypesAggregate :: "jv list"

section \<open>Fan-out Bus\<close>

datatype target = ToRoom string | ToSocket nat | ToAll

datatype payload = PJson jv | PRollup rollup

type_synonym emission = "target \<times> string \<times> payload"

record state =
  cameras :: coll
  signals :: coll
  analytics :: "sample list"
  rooms :: "(nat \<times> string) list"

definition join_room :: "nat \<Rightarrow> string \<Rightarrow> state \<Rightarrow> state" where
  "join_room sid r st = st\<lparr>rooms := List.insert (sid, r) (rooms st)\<rparr>"

definition error_event :: "nat \<Rightarrow> string \<Rightarrow> emission" where
  "error_event sid msg = (ToSocket sid, ''error'', PJson (JObj [(''message'', JStr msg)]))"

section \<open>Double-precision results\<close>

text \<open>
  \<open>$avg\<close> adds the integers of its group exactly, converts the sum to a double and
  divides it by the count; the quotient is the double nearest to the exact quotient. A
  double has a significand of 53 bits; a tie goes to the even significand. Overflow and
  subnormal numbers are left out (magnitudes from \<open>2\<^sup>-\<^sup>1\<^sup>0\<^sup>2\<^sup>2\<close> up to \<open>2\<^sup>1\<^sup>0\<^sup>2\<^sup>4\<close>).
\<close>

fun bit_length :: "nat \<Rightarrow> nat" where
  "bit_length n = (if n = 0 then 0 else Suc (bit_length (n div 2)))"

declare bit_length.simps [simp del]

definition pow2 :: "int \<Rightarrow> rat" where
  "pow2 e = (if 0 \<le> e then 2 ^ nat e else 1 / 2 ^ nat (- e))"

text \<open>The integer nearest to \<open>a / b\<close>, a tie going to the even one.\<close>

definition round_to :: "nat \<Rightarrow> nat \<Rightarrow> nat" where
  "round_to a b =
     (let q = a div b; r = a mod b
      in if 2 * r < b then q else if b < 2 * r then q + 1 else if even q then q else q + 1)"

text \<open>The double nearest to an integer (itself, below \<open>2\<^sup>5\<^sup>3\<close> in magnitude).\<close>

definition round_int :: "int \<Rightarrow> int" where
  "round_int s =
     (let a = nat \<bar>s\<bar>
      in if a < 2 ^ 53 then s
         else let k = bit_length a - 53 in sgn s * int (round_to a (2 ^ k) * 2 ^ k))"

text \<open>The exponent \<open>e\<close> with \<open>2\<^sup>e \<le> a / d < 2\<^sup>e\<^sup>+\<^sup>1\<close>, for positive \<open>a\<close> and \<open>d\<close>.\<close>

definition binary_exponent :: "nat \<Rightarrow> nat \<Rightarrow> int" where
  "binary_exponent a d =
     (let e0 = int (bit_length a) - int (bit_length d)
      in if (if 0 \<le> e0 then d * 2 ^ nat e0 \<le> a else d \<le> a * 2 ^ nat (- e0))
         then e0 else e0 - 1)"

text \<open>The double nearest to \<open>n / d\<close>, for \<open>d > 0\<close>.\<close>

definition round_ratio :: "int \<Rightarrow> nat \<Rightarrow> rat" where
  "round_ratio n d =
     (if n = 0 then 0
      else let a = nat \<bar>n\<bar>;
               k = 52 - binary_exponent a d;
               m = (if 0 \<le> k then round_to (a * 2 ^ nat k) d else round_to a (d * 2 ^ nat (- k)))
           in of_int (sgn n * int m) * pow2 (- k))"

text \<open>The arithmetic mean, with which the properties compare the result of \<open>$avg\<close>.\<close>

definition mean :: "int list \<Rightarrow> rat" where
  "mean xs = of_int (sum_list xs) / of_nat (length xs)"

section \<open>Analytics Aggregator (socketHandlers.js, processTrafficAnalytics)\<close>

text \<open>
  \<open>$avg\<close> accumulates the numeric values of its field and ignores the others; it is null
  when no value is numeric.
\<close>

fun avg_step :: "jv \<Rightarrow> int \<times> nat \<Rightarrow> int \<times> nat" where
  "avg_step (JNum n) (s, c) = (s + n, Suc c)"
| "avg_step v (s, c) = (s, c)"

definition avg_result :: "int \<times> nat \<Rightarrow> rat option" where
  "avg_result a =
     (case a of (s, c) \<Rightarrow> if c = 0 then None else Some (round_ratio (round_int s) c))"

definition avg :: "jv list \<Rightarrow> rat option" where
  "avg vs = avg_result (fold avg_step vs (0, 0))"

definition last24h :: "int \<Rightarrow> sample \<Rightarrow> bool" where
  "last24h now s = (now - 24 * 60 * 60 * 1000 \<le> timestamp s)"

text \<open>
  The pipeline \<open>[$match, $group { _id: null, ... }]\<close>: no row for an empty match.
  \<open>$push\<close> adds nothing for a document that lacks the field.
\<close>

definition rollup_aggregate :: "int \<Rightarrow> sample list \<Rightarrow> rollup list" where
  "rollup_aggregate now ss =
     (let w = filter (last24h now) ss in
      if w = [] then []
      else [\<lparr>group_id = JNull,
             averageTrafficVolume = avg (map trafficVolume w),
             averageSpeed = avg (map sample.averageSpeed w),
             vehicleTypesAggregate = filter (\<lambda>v. v \<noteq> JUndef) (map vehicleTypes w)\<rparr>])"

text \<open>
  \<open>Analytics.create\<close> builds the document through the schema of \<open>models/Analytics.js\<close>
  and validates it; a value that cannot be cast, or a congestion level outside the
  \<open>enum\<close>, rejects the call.

  A number path takes a number as it is, a boolean as 1 or 0, and the empty string as
  null. The conversion of any other string (\<open>Number(s)\<close>) is not modelled: no string of
  this model denotes a number, so the cast fails, as it does for an array and an object.
\<close>

fun cast_number :: "jv \<Rightarrow> jv option" where
  "cast_number JUndef = Some JUndef"
| "cast_number JNull = Some JNull"
| "cast_number (JBool b) = Some (JNum (if b then 1 else 0))"
| "cast_number (JNum n) = Some (JNum n)"
| "cast_number (JStr s) = (if s = [] then Some JNull else None)"
| "cast_number (JArr xs) = None"
| "cast_number (JObj fs) = None"

text \<open>
  The path \<open>congestionLevel\<close>: a string with an \<open>enum\<close> validator. A number or a boolean
  is cast to its string, which is none of the labels; an array or an object cannot be
  cast.
\<close>

definition congestionLevel_enum :: "string list" where
  "congestionLevel_enum = [''Low'', ''Medium'', ''High'', ''Unknown'']"

fun cast_congestionLevel :: "jv \<Rightarrow> jv option" where
  "cast_congestionLevel JUndef = Some JUndef"
| "cast_congestionLevel JNull = Some JNull"
| "cast_congestionLevel (JStr s) = (if s \<in> set congestionLevel_enum then Some (JStr s) else None)"
| "cast_congestionLevel v = None"

text \<open>A path that is left undefined takes its default.\<close>

definition or_default :: "jv \<Rightarrow> jv \<Rightarrow> jv" where
  "or_default d v = (if v = JUndef then d else v)"

text \<open>
  The nested path \<open>vehicleTypes\<close>: of the object given, the three counts are cast and
  stored, in the order of the schema, any other key is dropped (strict mode), and a
  count that is missing is 0. The constructor ignores a value that is not an object, so
  that the three counts are 0.
\<close>

definition cast_vehicleTypes :: "jv \<Rightarrow> jv option" where
  "cast_vehicleTypes v =
     (case v of
        JObj fs \<Rightarrow>
          (case cast_number (field v ''cars'') of
             None \<Rightarrow> None
           | Some c \<Rightarrow>
               (case cast_number (field v ''motorcycles'') of
                  None \<Rightarrow> None
                | Some m \<Rightarrow>
                    (case cast_number (field v ''trucks'') of
                       None \<Rightarrow> None
                     | Some t \<Rightarrow>
                         Some (JObj [(''cars'', or_default (JNum 0) c),
                                     (''motorcycles'', or_default (JNum 0) m),
                                     (''trucks'', or_default (JNum 0) t)]))))
      | _ \<Rightarrow> Some (JObj [(''cars'', JNum 0), (''motorcycles'', JNum 0), (''trucks'', JNum 0)]))"

text \<open>
  The two awaited store calls of \<open>processTrafficAnalytics\<close> and the two clock reads
  (\<open>new Date()\<close> for the sample, \<open>Date.now()\<close> for the window) are inputs. Whether
  \<open>junctionId\<close> can be cast to an id belongs to \<open>create_ok\<close>; the sample keeps it as given.
\<close>

record aoracle =
  create_ok :: bool
  create_time :: int
  aggregate_ok :: bool
  aggregate_time :: int

text \<open>The document that \<open>Analytics.create\<close> stores, or \<open>None\<close> when it rejects the values.\<close>

definition new_sample :: "int \<Rightarrow> jv \<Rightarrow> sample option" where
  "new_sample t metrics =
     (case cast_number (js_or (field metrics ''vehicleCount'') (JNum 0)) of
        None \<Rightarrow> None
      | Some v \<Rightarrow>
          (case cast_congestionLevel (js_or (field metrics ''congestionLevel'') (JStr ''Low'')) of
             None \<Rightarrow> None
           | Some l \<Rightarrow>
               (case cast_number (js_or (field metrics ''averageSpeed'') (JNum 0)) of
                  None \<Rightarrow> None
                | Some a \<Rightarrow>
                    (case cast_vehicleTypes
                            (js_or (field metrics ''vehicleTypes'')
                               (JObj [(''cars'', JNum 0), (''motorcycles'', JNum 0),
                                      (''trucks'', JNum 0)])) of
                       None \<Rightarrow> None
                     | Some vt \<Rightarrow>
                         Some \<lparr>timestamp = t,
                               trafficVolume = or_default (JNum 0) v,
                               congestionLevel = or_default (JStr ''Unknown'') l,
                               averageSpeed = or_default (JNum 0) a,
                               vehicleTypes = vt,
                               junctionId = field metrics ''junctionId''\<rparr>))))"

definition processTrafficAnalytics :: "aoracle \<Rightarrow> state \<Rightarrow> jv \<Rightarrow> state \<times> emission list" where
  "processTrafficAnalytics ao st metrics =
     (if nullish metrics then (st, [])
      else case new_sample (create_time ao) metrics of
        None \<Rightarrow> (st, [])
      | Some s \<Rightarrow>
          if \<not> create_ok ao then (st, [])
          else
            let st1 = st\<lparr>analytics := analytics st @ [s]\<rparr> in
            if \<not> aggregate_ok ao then (st1, [])
            else case rollup_aggregate (aggregate_time ao) (analytics st1) of
                   [] \<Rightarrow> (st1, [])
                 | r # rs \<Rightarrow> (st1, [(ToRoom ''admin'', ''analyticsUpdate'', PRollup r)]))"

section \<open>Socket handlers (socketHandlers.js)\<close>

record env =
  DEVICE_API_KEY :: "string option"

text \<open>An environment variable is a string, or \<open>undefined\<close> when it is not set.\<close>

definition env_value :: "string option \<Rightarrow> jv" where
  "env_value v = (case v of None \<Rightarrow> JUndef | Some s \<Rightarrow> JStr s)"

text \<open>
  \<open>authenticate\<close>: the verification of the token is external; \<open>valid\<close> says whether
  \<open>jwt.verify\<close> returned.
\<close>

definition authenticate :: "bool \<Rightarrow> state \<Rightarrow> nat \<Rightarrow> state \<times> emission list" where
  "authenticate valid st sid = (if valid then (join_room sid ''admin'' st, []) else (st, []))"

definition cameraControl :: "bool \<Rightarrow> state \<Rightarrow> nat \<Rightarrow> jv \<Rightarrow> state \<times> emission list" where
  "cameraControl ok st sid data =
     (let failed = (st, [error_event sid ''Failed to control camera'']) in
      if nullish data then failed
      else case set_arg (field data ''settings'') of
             Inl e \<Rightarrow> failed
           | Inr u \<Rightarrow>
               (case findByIdAndUpdate CameraSchema ok (cameras st) (field data ''id'') u of
                  Inl e \<Rightarrow> failed
                | Inr (camera, c') \<Rightarrow>
                    (st\<lparr>cameras := c'\<rparr>,
                     [(ToRoom ''admin'', ''cameraUpdate'', PJson camera),
                      (ToRoom (''camera-'' @ toString (field data ''id'')), ''configUpdate'',
                       PJson (field data ''settings''))])))"

definition signalControl :: "bool \<Rightarrow> state \<Rightarrow> nat \<Rightarrow> jv \<Rightarrow> state \<times> emission list" where
  "signalControl ok st sid data =
     (let failed = (st, [error_event sid ''Failed to control signal'']) in
      if nullish data then failed
      else case set_arg (field data ''settings'') of
             Inl e \<Rightarrow> failed
           | Inr u \<Rightarrow>
               (case findByIdAndUpdate SignalSchema ok (signals st) (field data ''id'') u of
                  Inl e \<Rightarrow> failed
                | Inr (signal, c') \<Rightarrow>
                    (st\<lparr>signals := c'\<rparr>,
                     [(ToRoom ''admin'', ''signalUpdate'', PJson signal),
                      (ToRoom (''signal-'' @ toString (field data ''id'')), ''configUpdate'',
                       PJson (field data ''settings''))])))"

text \<open>
  \<open>deviceConnect\<close>: the strict comparison \<open>apiKey !== process.env.DEVICE_API_KEY\<close> has a
  primitive on its right, so it is inequality of values. The join happens before the
  awaited update and stays when the update rejects.
\<close>

definition deviceConnect ::
  "env \<Rightarrow> bool \<Rightarrow> int \<Rightarrow> state \<Rightarrow> nat \<Rightarrow> jv \<Rightarrow> state \<times> emission list" where
  "deviceConnect ev ok now st sid data =
     (if nullish data then (st, [error_event sid ''Authentication failed''])
      else
        let type = field data ''type''; id = field data ''id''; apiKey = field data ''apiKey'' in
        if apiKey \<noteq> env_value (DEVICE_API_KEY ev)
        then (st, [error_event sid ''Authentication failed''])
        else
          let st1 = join_room sid (toString type @ ''-'' @ toString id) st;
              u = [(''status'', JStr ''online''), (''lastSeen'', JNum now)] in
          if type = JStr ''camera'' then
            (case findByIdAndUpdate CameraSchema ok (cameras st1) id u of
               Inl e \<Rightarrow> (st1, [error_event sid ''Authentication failed''])
             | Inr (device, c') \<Rightarrow>
                 (st1\<lparr>cameras := c'\<rparr>, [(ToRoom ''admin'', ''cameraUpdate'', PJson device)]))
          else if type = JStr ''signal'' then
            (case findByIdAndUpdate SignalSchema ok (signals st1) id u of
               Inl e \<Rightarrow> (st1, [error_event sid ''Authentication failed''])
             | Inr (device, c') \<Rightarrow>
                 (st1\<lparr>signals := c'\<rparr>, [(ToRoom ''admin'', ''signalUpdate'', PJson device)]))
          else (st1, []))"

text \<open>
  \<open>deviceData\<close>: the catch block only logs. For a camera the metrics are handed to
  \<open>processTrafficAnalytics\<close> without awaiting it; its effects are taken to follow at
  once, and its own failures stay inside it.
\<close>

definition deviceData ::
  "bool \<Rightarrow> int \<Rightarrow> aoracle \<Rightarrow> state \<Rightarrow> nat \<Rightarrow> jv \<Rightarrow> state \<times> emission list" where
  "deviceData ok now ao st sid data =
     (if nullish data then (st, [])
      else
        let type = field data ''type''; id = field data ''id''; metrics = field data ''metrics'' in
        if type = JStr ''camera'' then
          (case findByIdAndUpdate CameraSchema ok (cameras st) id
                  [(''lastSeen'', JNum now), (''metrics'', metrics)] of
             Inl e \<Rightarrow> (st, [])
           | Inr (camera, c') \<Rightarrow>
               (case processTrafficAnalytics ao (st\<lparr>cameras := c'\<rparr>) metrics of
                  (st2, ems) \<Rightarrow> (st2, (ToRoom ''admin'', ''cameraUpdate'', PJson camera) # ems)))
        else if type = JStr ''signal'' then
          (if nullish metrics then (st, [])
           else case findByIdAndUpdate SignalSchema ok (signals st) id
                       [(''lastSeen'', JNum now),
                        (''currentPhase'', field metrics ''currentPhase''),
                        (''remainingTime'', field metrics ''remainingTime''),
                        (''metrics'', metrics)] of
                  Inl e \<Rightarrow> (st, [])
                | Inr (signal, c') \<Rightarrow>
                    (st\<lparr>signals := c'\<rparr>, [(ToRoom ''admin'', ''signalUpdate'', PJson signal)]))
        else (st, []))"

section \<open>REST handlers (routes/signals.js, routes/cameras.js)\<close>

text \<open>
  A handler is modelled from the point where the authentication and role middleware have
  passed. It yields the HTTP response, the messages published and the store afterwards.
\<close>

record response =
  code :: nat
  body :: jv

definition message :: "string \<Rightarrow> jv" where
  "message m = JObj [(''message'', JStr m)]"

definition signals_put ::
  "bool \<Rightarrow> state \<Rightarrow> string \<Rightarrow> jv \<Rightarrow> response \<times> emission list \<times> state" where
  "signals_put ok st pid reqBody =
     (if nullish reqBody then (\<lparr>code = 500, body = message ''Server error''\<rparr>, [], st)
      else
        let mode = field reqBody ''mode'';
            currentPhase = field reqBody ''currentPhase'';
            remainingTime = field reqBody ''remainingTime'' in
        case findByIdAndUpdate SignalSchema ok (signals st) (JStr pid)
               [(''name'', field reqBody ''name''),
                (''location'', field reqBody ''location''),
                (''coordinates'', field reqBody ''coordinates''),
                (''ipAddress'', field reqBody ''ipAddress''),
                (''status'', field reqBody ''status''),
                (''mode'', mode),
                (''currentPhase'', currentPhase),
                (''remainingTime'', remainingTime)] of
          Inl e \<Rightarrow> (\<lparr>code = 500, body = message ''Server error''\<rparr>, [], st)
        | Inr (signal, c') \<Rightarrow>
            if \<not> truthy signal
            then (\<lparr>code = 404, body = message ''Signal not found''\<rparr>, [], st\<lparr>signals := c'\<rparr>)
            else
              (\<lparr>code = 200, body = signal\<rparr>,
               (ToRoom ''admin'', ''signalUpdate'', PJson signal) #
               (if truthy mode \<or> truthy currentPhase
                then [(ToRoom (''signal-'' @ toString (field signal ''_id'')), ''configUpdate'',
                       PJson (JObj [(''mode'', mode), (''currentPhase'', currentPhase),
                                    (''remainingTime'', remainingTime)]))]
                else []),
               st\<lparr>signals := c'\<rparr>))"

definition signals_delete ::
  "bool \<Rightarrow> state \<Rightarrow> string \<Rightarrow> response \<times> emission list \<times> state" where
  "signals_delete ok st pid =
     (case findByIdAndDelete ok (signals st) (JStr pid) of
        Inl e \<Rightarrow> (\<lparr>code = 500, body = message ''Server error''\<rparr>, [], st)
      | Inr (signal, c') \<Rightarrow>
          if \<not> truthy signal
          then (\<lparr>code = 404, body = message ''Signal not found''\<rparr>, [], st\<lparr>signals := c'\<rparr>)
          else
            (\<lparr>code = 200, body = message ''Signal deleted successfully''\<rparr>,
             [(ToRoom ''admin'', ''signalDeleted'', PJson (JObj [(''id'', JStr pid)]))],
             st\<lparr>signals := c'\<rparr>))"

definition cameras_put ::
  "bool \<Rightarrow> state \<Rightarrow> string \<Rightarrow> jv \<Rightarrow> response \<times> emission list \<times> state" where
  "cameras_put ok st pid reqBody =
     (if nullish reqBody then (\<lparr>code = 500, body = message ''Server error''\<rparr>, [], st)
      else
        let settings = field reqBody ''settings'' in
        case findByIdAndUpdate CameraSchema ok (cameras st) (JStr pid)
               [(''name'', field reqBody ''name''),
                (''location'', field reqBody ''location''),
                (''coordinates'', field reqBody ''coordinates''),
                (''ipAddress'', field reqBody ''ipAddress''),
                (''status'', field reqBody ''status''),
                (''settings'', settings)] of
          Inl e \<Rightarrow> (\<lparr>code = 500, body = message ''Server error''\<rparr>, [], st)
        | Inr (camera, c') \<Rightarrow>
            if \<not> truthy camera
            then (\<lparr>code = 404, body = message ''Camera not found''\<rparr>, [], st\<lparr>cameras := c'\<rparr>)
            else
              (\<lparr>code = 200, body = camera\<rparr>,
               [(ToRoom ''admin'', ''cameraUpdate'', PJson camera),
                (ToRoom (''camera-'' @ toString (field camera ''_id'')), ''configUpdate'',
                 PJson settings)],
               st\<lparr>cameras := c'\<rparr>))"

definition cameras_delete ::
  "bool \<Rightarrow> state \<Rightarrow> string \<Rightarrow> response \<times> emission list \<times> state" where
  "cameras_delete ok st pid =
     (case findByIdAndDelete ok (cameras st) (JStr pid) of
        Inl e \<Rightarrow> (\<lparr>code = 500, body = message ''Server error''\<rparr>, [], st)
      | Inr (camera, c') \<Rightarrow>
          if \<not> truthy camera
          then (\<lparr>code = 404, body = message ''Camera not found''\<rparr>, [], st\<lparr>cameras := c'\<rparr>)
          else
            (\<lparr>code = 200, body = message ''Camera deleted successfully''\<rparr>,
             [(ToRoom ''admin'', ''cameraDeleted'', PJson (JObj [(''id'', JStr pid)]))],
             st\<lparr>cameras := c'\<rparr>))"

section \<open>Hourly trend (routes/dashboard.js, GET /overview)\<close>

text \<open>
  \<open>$year\<close>, \<open>$month\<close>, \<open>$dayOfMonth\<close> and \<open>$hour\<close> read a date in UTC. The date of a
  day number (days since 1970-01-01) in the proleptic Gregorian calendar:
\<close>

definition civil_from_days :: "int \<Rightarrow> int \<times> int \<times> int" where
  "civil_from_days z0 =
     (let z = z0 + 719468;
          era = z div 146097;
          doe = z - era * 146097;
          yoe = (doe - doe div 1460 + doe div 36524 - doe div 146096) div 365;
          doy = doe - (365 * yoe + yoe div 4 - yoe div 100);
          mp = (5 * doy + 2) div 153;
          d = doy - (153 * mp + 2) div 5 + 1;
          m = (if mp < 10 then mp + 3 else mp - 9);
          y = yoe + era * 400 + (if m \<le> 2 then 1 else 0)
      in (y, m, d))"

text \<open>
  The day number of a date of that calendar, by which the properties below say what
  \<open>civil_from_days\<close> computes; the aggregation does not use it.
\<close>

definition days_from_civil :: "int \<Rightarrow> int \<Rightarrow> int \<Rightarrow> int" where
  "days_from_civil y m d =
     (let y' = (if m \<le> 2 then y - 1 else y);
          era = y' div 400;
          yoe = y' - era * 400;
          doy = (153 * (if m > 2 then m - 3 else m + 9) + 2) div 5 + d - 1;
          doe = yoe * 365 + yoe div 4 - yoe div 100 + doy
      in era * 146097 + doe - 719468)"

text \<open>
  The year of a day within its 400-year era, and the first and the last day of such a
  year (years begin in March), as the proofs about \<open>civil_from_days\<close> use them.
\<close>

definition year_of_era :: "int \<Rightarrow> int" where
  "year_of_era doe = (doe - doe div 1460 + doe div 36524 - doe div 146096) div 365"

definition year_start :: "int \<Rightarrow> int" where
  "year_start y = 365 * y + y div 4 - y div 100"

definition year_end :: "int \<Rightarrow> int" where
  "year_end y = (if y = 399 then 146096 else year_start (y + 1) - 1)"

text \<open>The group key \<open>_id\<close>, written in the order of the \<open>$sort\<close>: (year, month, day, hour).\<close>

type_synonym hour_id = "int \<times> int \<times> int \<times> int"

definition hour_id_of :: "int \<Rightarrow> hour_id" where
  "hour_id_of t =
     (case civil_from_days (t div 86400000) of
        (y, m, d) \<Rightarrow> (y, m, d, (t mod 86400000) div 3600000))"

text \<open>
  The severity score of the \<open>$cond\<close> expression: 3 for \<open>High\<close>, 2 for \<open>Moderate\<close>,
  1 for every other label.
\<close>

definition congestion_score :: "jv \<Rightarrow> int" where
  "congestion_score l =
     (if l = JStr ''High'' then 3 else if l = JStr ''Moderate'' then 2 else 1)"

text \<open>The accumulators of one group: the two running \<open>$avg\<close> states.\<close>

record hacc =
  vol_acc :: "int \<times> nat"
  cong_acc :: "int \<times> nat"

definition acc_add :: "sample \<Rightarrow> hacc \<Rightarrow> hacc" where
  "acc_add s a =
     \<lparr>vol_acc = avg_step (sample.trafficVolume s) (vol_acc a),
      cong_acc = avg_step (JNum (congestion_score (sample.congestionLevel s))) (cong_acc a)\<rparr>"

fun group_add :: "hour_id \<Rightarrow> sample \<Rightarrow> (hour_id \<times> hacc) list \<Rightarrow> (hour_id \<times> hacc) list" where
  "group_add k s [] = [(k, acc_add s \<lparr>vol_acc = (0, 0), cong_acc = (0, 0)\<rparr>)]"
| "group_add k s ((k', a) # gs) =
     (if k = k' then (k', acc_add s a) # gs else (k', a) # group_add k s gs)"

definition group_by_hour :: "sample list \<Rightarrow> (hour_id \<times> hacc) list" where
  "group_by_hour ss = fold (\<lambda>s. group_add (hour_id_of (timestamp s)) s) ss []"

record hourly =
  hid :: hour_id
  averageTrafficVolume :: "rat option"
  averageCongestion :: "rat option"

definition hourlyTraffic :: "int \<Rightarrow> sample list \<Rightarrow> hourly list" where
  "hourlyTraffic now ss =
     sort_key hid
       (map (\<lambda>(k, a). \<lparr>hid = k,
                        averageTrafficVolume = avg_result (vol_acc a),
                        averageCongestion = avg_result (cong_acc a)\<rparr>)
            (group_by_hour (filter (last24h now) ss)))"

text \<open>
  \<open>Math.round\<close> rounds half up; \<open>null\<close> converts to 0. A comparison \<open>null < 1.5\<close>
  compares 0.
\<close>

definition math_round :: "rat option \<Rightarrow> int" where
  "math_round x = (case x of None \<Rightarrow> 0 | Some r \<Rightarrow> \<lfloor>r + 1 / 2\<rfloor>)"

definition to_number :: "rat option \<Rightarrow> rat" where
  "to_number x = (case x of None \<Rightarrow> 0 | Some r \<Rightarrow> r)"

definition trend_label :: "rat option \<Rightarrow> string" where
  "trend_label a =
     (if to_number a < 3 / 2 then ''Low''
      else if to_number a < 5 / 2 then ''Moderate'' else ''High'')"

record trend =
  time :: string
  trafficVolume :: int
  congestionLevel :: string

definition trafficTrend :: "int \<Rightarrow> sample list \<Rightarrow> trend list" where
  "trafficTrend now ss =
     map (\<lambda>h. \<lparr>time = (case hid h of (y, m, d, hr) \<Rightarrow> show_int hr @ '':00''),
               trafficVolume = math_round (hourly.averageTrafficVolume h),
               congestionLevel = trend_label (averageCongestion h)\<rparr>)
         (hourlyTraffic now ss)"

section \<open>The remaining writers of device records\<close>

subsection \<open>routes/signals.js and routes/cameras.js\<close>

text \<open>
  A new document carries its id and the defaults of its schema; the fields passed to the
  constructor override them, an \<open>undefined\<close> one does not. The id of a new document
  and the clock are inputs.
\<close>

definition new_doc ::
  "(string \<times> schema) list \<Rightarrow> string \<Rightarrow> doc \<Rightarrow> (string \<times> jv) list \<Rightarrow> doc" where
  "new_doc ps newid defaults given =
     set_fields (strict_fields ps given) ((''_id'', JStr newid) # defaults)"

definition SignalSchema_defaults :: "int \<Rightarrow> doc" where
  "SignalSchema_defaults now =
     [(''status'', JStr ''offline''),
      (''mode'', JStr ''AI''),
      (''currentPhase'', JStr ''North-South Green''),
      (''remainingTime'', JStr ''0s''),
      (''congestionLevel'', JStr ''Unknown''),
      (''settings'', JObj [(''phases'', JArr []),
                          (''schedule'', JObj [(''enabled'', JBool False), (''timings'', JArr [])])]),
      (''createdAt'', JNum now)]"

definition CameraSchema_defaults :: "int \<Rightarrow> doc" where
  "CameraSchema_defaults now =
     [(''model'', JStr ''ESP32-CAM''),
      (''firmware'', JStr ''v2.4.1''),
      (''status'', JStr ''offline''),
      (''settings'', JObj [(''resolution'', JStr ''640x480''), (''frameRate'', JNum 15),
                          (''nightMode'', JBool False), (''brightness'', JNum 50),
                          (''contrast'', JNum 50)]),
      (''createdAt'', JNum now)]"

definition signals_post ::
  "bool \<Rightarrow> string \<Rightarrow> int \<Rightarrow> state \<Rightarrow> jv \<Rightarrow> response \<times> emission list \<times> state" where
  "signals_post ok newid now st reqBody =
     (if nullish reqBody \<or> \<not> ok then (\<lparr>code = 500, body = message ''Server error''\<rparr>, [], st)
      else
        let signal = new_doc SignalSchema newid (SignalSchema_defaults now)
                       [(''name'', field reqBody ''name''),
                        (''location'', field reqBody ''location''),
                        (''coordinates'', field reqBody ''coordinates''),
                        (''ipAddress'', field reqBody ''ipAddress'')] in
        (\<lparr>code = 201, body = JObj signal\<rparr>,
         [(ToRoom ''admin'', ''signalUpdate'', PJson (JObj signal))],
         st\<lparr>signals := signals st @ [(JStr newid, signal)]\<rparr>))"

definition cameras_post ::
  "bool \<Rightarrow> string \<Rightarrow> int \<Rightarrow> state \<Rightarrow> jv \<Rightarrow> response \<times> emission list \<times> state" where
  "cameras_post ok newid now st reqBody =
     (if nullish reqBody \<or> \<not> ok then (\<lparr>code = 500, body = message ''Server error''\<rparr>, [], st)
      else
        let camera = new_doc CameraSchema newid (CameraSchema_defaults now)
                       [(''name'', field reqBody ''name''),
                        (''location'', field reqBody ''location''),
                        (''coordinates'', field reqBody ''coordinates''),
                        (''ipAddress'', field reqBody ''ipAddress''),
                        (''model'', field reqBody ''model''),
                        (''firmware'', field reqBody ''firmware'')] in
        (\<lparr>code = 201, body = JObj camera\<rparr>,
         [(ToRoom ''admin'', ''cameraUpdate'', PJson (JObj camera))],
         st\<lparr>cameras := cameras st @ [(JStr newid, camera)]\<rparr>))"

definition signals_put_settings ::
  "bool \<Rightarrow> state \<Rightarrow> string \<Rightarrow> jv \<Rightarrow> response \<times> emission list \<times> state" where
  "signals_put_settings ok st pid reqBody =
     (if nullish reqBody then (\<lparr>code = 500, body = message ''Server error''\<rparr>, [], st)
      else
        let settings = field reqBody ''settings'' in
        case findByIdAndUpdate SignalSchema ok (signals st) (JStr pid) [(''settings'', settings)] of
          Inl e \<Rightarrow> (\<lparr>code = 500, body = message ''Server error''\<rparr>, [], st)
        | Inr (signal, c') \<Rightarrow>
            if \<not> truthy signal
            then (\<lparr>code = 404, body = message ''Signal not found''\<rparr>, [], st\<lparr>signals := c'\<rparr>)
            else
              (\<lparr>code = 200, body = signal\<rparr>,
               [(ToRoom ''admin'', ''signalUpdate'', PJson signal),
                (ToRoom (''signal-'' @ toString (field signal ''_id'')), ''configUpdate'',
                 PJson settings)],
               st\<lparr>signals := c'\<rparr>))"

definition cameras_put_settings ::
  "bool \<Rightarrow> state \<Rightarrow> string \<Rightarrow> jv \<Rightarrow> response \<times> emission list \<times> state" where
  "cameras_put_settings ok st pid reqBody =
     (if nullish reqBody then (\<lparr>code = 500, body = message ''Server error''\<rparr>, [], st)
      else
        let settings = field reqBody ''settings'' in
        case findByIdAndUpdate CameraSchema ok (cameras st) (JStr pid) [(''settings'', settings)] of
          Inl e \<Rightarrow> (\<lparr>code = 500, body = message ''Server error''\<rparr>, [], st)
        | Inr (camera, c') \<Rightarrow>
            if \<not> truthy camera
            then (\<lparr>code = 404, body = message ''Camera not found''\<rparr>, [], st\<lparr>cameras := c'\<rparr>)
            else
              (\<lparr>code = 200, body = camera\<rparr>,
               [(ToRoom ''admin'', ''cameraUpdate'', PJson camera),
                (ToRoom (''camera-'' @ toString (field camera ''_id'')), ''configUpdate'',
                 PJson settings)],
               st\<lparr>cameras := c'\<rparr>))"

text \<open>
  \<open>POST /:id/control\<close> reads the document, assigns to it and saves it: \<open>ok\<close> is the
  read, \<open>ok_save\<close> the save.
\<close>

definition assign_if :: "string \<Rightarrow> jv \<Rightarrow> doc \<Rightarrow> doc" where
  "assign_if k v d = (if truthy v then AList.update k v d else d)"

definition signals_control ::
  "bool \<Rightarrow> bool \<Rightarrow> state \<Rightarrow> string \<Rightarrow> jv \<Rightarrow> response \<times> emission list \<times> state" where
  "signals_control ok ok_save st pid reqBody =
     (if nullish reqBody then (\<lparr>code = 500, body = message ''Server error''\<rparr>, [], st)
      else
        let phase = field reqBody ''phase'';
            duration = field reqBody ''duration'';
            mode = field reqBody ''mode'' in
        if \<not> ok then (\<lparr>code = 500, body = message ''Server error''\<rparr>, [], st)
        else case map_of (signals st) (JStr pid) of
          None \<Rightarrow> (\<lparr>code = 404, body = message ''Signal not found''\<rparr>, [], st)
        | Some d \<Rightarrow>
            let d1 = AList.update ''mode'' (js_or mode (JStr ''Manual'')) d;
                d2 = assign_if ''currentPhase'' phase d1;
                signal = (if truthy duration
                          then AList.update ''remainingTime'' (JStr (toString duration @ ''s'')) d2
                          else d2) in
            if \<not> ok_save then (\<lparr>code = 500, body = message ''Server error''\<rparr>, [], st)
            else
              (\<lparr>code = 200, body = JObj signal\<rparr>,
               [(ToRoom ''admin'', ''signalUpdate'', PJson (JObj signal)),
                (ToRoom (''signal-'' @ toString (field (JObj signal) ''_id'')), ''controlCommand'',
                 PJson (JObj [(''mode'', field (JObj signal) ''mode''),
                              (''phase'', field (JObj signal) ''currentPhase''),
                              (''duration'', duration)]))],
               st\<lparr>signals := AList.update (JStr pid) signal (signals st)\<rparr>))"

subsection \<open>index.js: REST handlers\<close>

definition app_cameras_post ::
  "bool \<Rightarrow> string \<Rightarrow> int \<Rightarrow> state \<Rightarrow> jv \<Rightarrow> response \<times> emission list \<times> state" where
  "app_cameras_post ok newid now st reqBody =
     (if nullish reqBody \<or> \<not> ok then (\<lparr>code = 500, body = message ''Server error''\<rparr>, [], st)
      else
        let camera = new_doc cameraSchema newid
                       [(''status'', JStr ''offline''), (''model'', JStr ''ESP32-CAM''),
                        (''firmware'', JStr ''v2.4.1''), (''lastUpdate'', JNum now)]
                       [(''name'', field reqBody ''name''),
                        (''location'', field reqBody ''location''),
                        (''ipAddress'', field reqBody ''ipAddress''),
                        (''status'', JStr ''offline'')] in
        (\<lparr>code = 201, body = JObj camera\<rparr>,
         [(ToAll, ''cameraUpdate'', PJson (JObj camera))],
         st\<lparr>cameras := cameras st @ [(JStr newid, camera)]\<rparr>))"

definition app_cameras_put ::
  "bool \<Rightarrow> bool \<Rightarrow> int \<Rightarrow> state \<Rightarrow> string \<Rightarrow> jv \<Rightarrow> response \<times> emission list \<times> state" where
  "app_cameras_put ok ok_save now st pid reqBody =
     (if nullish reqBody \<or> \<not> ok then (\<lparr>code = 500, body = message ''Server error''\<rparr>, [], st)
      else case map_of (cameras st) (JStr pid) of
        None \<Rightarrow> (\<lparr>code = 404, body = message ''Camera not found''\<rparr>, [], st)
      | Some d \<Rightarrow>
          let d1 = assign_if ''name'' (field reqBody ''name'') d;
              d2 = assign_if ''location'' (field reqBody ''location'') d1;
              d3 = assign_if ''ipAddress'' (field reqBody ''ipAddress'') d2;
              d4 = assign_if ''status'' (field reqBody ''status'') d3;
              camera = AList.update ''lastUpdate'' (JNum now) d4 in
          if \<not> ok_save then (\<lparr>code = 500, body = message ''Server error''\<rparr>, [], st)
          else
            (\<lparr>code = 200, body = JObj camera\<rparr>,
             [(ToAll, ''cameraUpdate'', PJson (JObj camera))],
             st\<lparr>cameras := AList.update (JStr pid) camera (cameras st)\<rparr>))"

definition app_cameras_delete ::
  "bool \<Rightarrow> state \<Rightarrow> string \<Rightarrow> response \<times> emission list \<times> state" where
  "app_cameras_delete ok st pid =
     (case findByIdAndDelete ok (cameras st) (JStr pid) of
        Inl e \<Rightarrow> (\<lparr>code = 500, body = message ''Server error''\<rparr>, [], st)
      | Inr (camera, c') \<Rightarrow>
          if \<not> truthy camera
          then (\<lparr>code = 404, body = message ''Camera not found''\<rparr>, [], st\<lparr>cameras := c'\<rparr>)
          else
            (\<lparr>code = 200, body = message ''Camera removed successfully''\<rparr>,
             [(ToAll, ''cameraRemoved'', PJson (JObj [(''id'', JStr pid)]))],
             st\<lparr>cameras := c'\<rparr>))"

definition app_signals_post ::
  "bool \<Rightarrow> string \<Rightarrow> int \<Rightarrow> state \<Rightarrow> jv \<Rightarrow> response \<times> emission list \<times> state" where
  "app_signals_post ok newid now st reqBody =
     (if nullish reqBody \<or> \<not> ok then (\<lparr>code = 500, body = message ''Server error''\<rparr>, [], st)
      else
        let signal = new_doc signalSchema newid
                       [(''status'', JStr ''offline''), (''mode'', JStr ''Scheduled''),
                        (''currentPhase'', JStr ''All-Way Red''), (''remainingTime'', JStr ''0s''),
                        (''congestionLevel'', JStr ''Unknown''), (''lastUpdate'', JNum now)]
                       [(''name'', field reqBody ''name''),
                        (''location'', field reqBody ''location''),
                        (''mode'', js_or (field reqBody ''mode'') (JStr ''Scheduled'')),
                        (''status'', JStr ''offline'')] in
        (\<lparr>code = 201, body = JObj signal\<rparr>,
         [(ToAll, ''signalUpdate'', PJson (JObj signal))],
         st\<lparr>signals := signals st @ [(JStr newid, signal)]\<rparr>))"

definition app_signals_put ::
  "bool \<Rightarrow> bool \<Rightarrow> int \<Rightarrow> state \<Rightarrow> string \<Rightarrow> jv \<Rightarrow> response \<times> emission list \<times> state" where
  "app_signals_put ok ok_save now st pid reqBody =
     (if nullish reqBody \<or> \<not> ok then (\<lparr>code = 500, body = message ''Server error''\<rparr>, [], st)
      else case map_of (signals st) (JStr pid) of
        None \<Rightarrow> (\<lparr>code = 404, body = message ''Signal not found''\<rparr>, [], st)
      | Some d \<Rightarrow>
          let d1 = assign_if ''name'' (field reqBody ''name'') d;
              d2 = assign_if ''location'' (field reqBody ''location'') d1;
              d3 = assign_if ''status'' (field reqBody ''status'') d2;
              d4 = assign_if ''mode'' (field reqBody ''mode'') d3;
              d5 = assign_if ''currentPhase'' (field reqBody ''currentPhase'') d4;
              d6 = assign_if ''congestionLevel'' (field reqBody ''congestionLevel'') d5;
              signal = AList.update ''lastUpdate'' (JNum now) d6 in
          if \<not> ok_save then (\<lparr>code = 500, body = message ''Server error''\<rparr>, [], st)
          else
            (\<lparr>code = 200, body = JObj signal\<rparr>,
             [(ToAll, ''signalUpdate'', PJson (JObj signal))],
             st\<lparr>signals := AList.update (JStr pid) signal (signals st)\<rparr>))"

definition app_signals_delete ::
  "bool \<Rightarrow> state \<Rightarrow> string \<Rightarrow> response \<times> emission list \<times> state" where
  "app_signals_delete ok st pid =
     (case findByIdAndDelete ok (signals st) (JStr pid) of
        Inl e \<Rightarrow> (\<lparr>code = 500, body = message ''Server error''\<rparr>, [], st)
      | Inr (signal, c') \<Rightarrow>
          if \<not> truthy signal
          then (\<lparr>code = 404, body = message ''Signal not found''\<rparr>, [], st\<lparr>signals := c'\<rparr>)
          else
            (\<lparr>code = 200, body = message ''Signal removed successfully''\<rparr>,
             [(ToAll, ''signalRemoved'', PJson (JObj [(''id'', JStr pid)]))],
             st\<lparr>signals := c'\<rparr>))"

subsection \<open>index.js: simulateUpdates\<close>

text \<open>
  Every value of \<open>Math.random()\<close> is an input, a rational in \<open>[0, 1)\<close>; a tick given a
  value outside this range does nothing. \<open>ok\<close> is the query, \<open>ok_save\<close> the save; the
  catch blocks only log. The update goes to the connection that owns the timer.
\<close>

definition draw :: "rat \<Rightarrow> bool" where
  "draw u = (0 \<le> u \<and> u < 1)"

definition random_element :: "'a list \<Rightarrow> rat \<Rightarrow> 'a" where
  "random_element xs u = xs ! nat \<lfloor>u * of_nat (length xs)\<rfloor>"

definition simulate_camera ::
  "bool \<Rightarrow> bool \<Rightarrow> int \<Rightarrow> rat \<Rightarrow> rat \<Rightarrow> rat \<Rightarrow> state \<Rightarrow> nat \<Rightarrow> state \<times> emission list" where
  "simulate_camera ok ok_save now u1 u2 u3 st sid =
     (if \<not> (draw u1 \<and> draw u2 \<and> draw u3) \<or> \<not> ok then (st, [])
      else if length (cameras st) > 0 then
        (case random_element (cameras st) u1 of
           (i, d) \<Rightarrow>
             let d1 = AList.update ''lastUpdate'' (JNum now) d;
                 randomCamera =
                   (if u2 < 1 / 10
                    then AList.update ''status''
                           (random_element [JStr ''online'', JStr ''offline'', JStr ''warning''] u3) d1
                    else d1) in
             if \<not> ok_save then (st, [])
             else (st\<lparr>cameras := AList.update i randomCamera (cameras st)\<rparr>,
                   [(ToSocket sid, ''cameraUpdate'', PJson (JObj randomCamera))]))
      else (st, []))"

definition simulate_signal ::
  "bool \<Rightarrow> bool \<Rightarrow> int \<Rightarrow> rat \<Rightarrow> rat \<Rightarrow> rat \<Rightarrow> rat \<Rightarrow> state \<Rightarrow> nat \<Rightarrow> state \<times> emission list" where
  "simulate_signal ok ok_save now u1 u2 u3 u4 st sid =
     (if \<not> (draw u1 \<and> draw u2 \<and> draw u3 \<and> draw u4) \<or> \<not> ok then (st, [])
      else
        let online = filter (\<lambda>(i, d). field (JObj d) ''status'' = JStr ''online'') (signals st) in
        if length online > 0 then
          (case random_element online u1 of
             (i, d) \<Rightarrow>
               let phases = [JStr ''North-South Green'', JStr ''East-West Green'',
                             JStr ''All-Way Red'', JStr ''North-South Yellow'',
                             JStr ''East-West Yellow''];
                   congestionLevels = [JStr ''Low'', JStr ''Medium'', JStr ''High''];
                   d1 = AList.update ''currentPhase'' (random_element phases u2) d;
                   d2 = AList.update ''remainingTime''
                          (JStr (show_int (\<lfloor>u3 * 45\<rfloor> + 5) @ ''s'')) d1;
                   d3 = AList.update ''congestionLevel'' (random_element congestionLevels u4) d2;
                   randomSignal = AList.update ''lastUpdate'' (JNum now) d3 in
               if \<not> ok_save then (st, [])
               else (st\<lparr>signals := AList.update i randomSignal (signals st)\<rparr>,
                     [(ToSocket sid, ''signalUpdate'', PJson (JObj randomSignal))]))
        else (st, []))"

section \<open>The system as a transition system\<close>

text \<open>
  One action is one run of a handler or of a simulator tick, with its inputs. Handlers run
  one after the other on the shared store.
\<close>

datatype action =
    Authenticate nat bool
  | CameraControl nat bool jv
  | SignalControl nat bool jv
  | DeviceConnect nat bool int jv
  | DeviceData nat bool int aoracle jv
  | SignalsPost bool string int jv
  | SignalsPut bool string jv
  | SignalsDelete bool string
  | SignalsPutSettings bool string jv
  | SignalsControl bool bool string jv
  | CamerasPost bool string int jv
  | CamerasPut bool string jv
  | CamerasDelete bool string
  | CamerasPutSettings bool string jv
  | AppCamerasPost bool string int jv
  | AppCamerasPut bool bool int string jv
  | AppCamerasDelete bool string
  | AppSignalsPost bool string int jv
  | AppSignalsPut bool bool int string jv
  | AppSignalsDelete bool string
  | SimulateCamera nat bool bool int rat rat rat
  | SimulateSignal nat bool bool int rat rat rat rat

fun step :: "env \<Rightarrow> action \<Rightarrow> state \<Rightarrow> state" where
  "step ev (Authenticate sid valid) st = fst (authenticate valid st sid)"
| "step ev (CameraControl sid ok data) st = fst (cameraControl ok st sid data)"
| "step ev (SignalControl sid ok data) st = fst (signalControl ok st sid data)"
| "step ev (DeviceConnect sid ok now data) st = fst (deviceConnect ev ok now st sid data)"
| "step ev (DeviceData sid ok now ao data) st = fst (deviceData ok now ao st sid data)"
| "step ev (SignalsPost ok newid now b) st = snd (snd (signals_post ok newid now st b))"
| "step ev (SignalsPut ok pid b) st = snd (snd (signals_put ok st pid b))"
| "step ev (SignalsDelete ok pid) st = snd (snd (signals_delete ok st pid))"
| "step ev (SignalsPutSettings ok pid b) st = snd (snd (signals_put_settings ok st pid b))"
| "step ev (SignalsControl ok ok_save pid b) st = snd (snd (signals_control ok ok_save st pid b))"
| "step ev (CamerasPost ok newid now b) st = snd (snd (cameras_post ok newid now st b))"
| "step ev (CamerasPut ok pid b) st = snd (snd (cameras_put ok st pid b))"
| "step ev (CamerasDelete ok pid) st = snd (snd (cameras_delete ok st pid))"
| "step ev (CamerasPutSettings ok pid b) st = snd (snd (cameras_put_settings ok st pid b))"
| "step ev (AppCamerasPost ok newid now b) st = snd (snd (app_cameras_post ok newid now st b))"
| "step ev (AppCamerasPut ok ok_save now pid b) st =
     snd (snd (app_cameras_put ok ok_save now st pid b))"
| "step ev (AppCamerasDelete ok pid) st = snd (snd (app_cameras_delete ok st pid))"
| "step ev (AppSignalsPost ok newid now b) st = snd (snd (app_signals_post ok newid now st b))"
| "step ev (AppSignalsPut ok ok_save now pid b) st =
     snd (snd (app_signals_put ok ok_save now st pid b))"
| "step ev (AppSignalsDelete ok pid) st = snd (snd (app_signals_delete ok st pid))"
| "step ev (SimulateCamera sid ok ok_save now u1 u2 u3) st =
     fst (simulate_camera ok ok_save now u1 u2 u3 st sid)"
| "step ev (SimulateSignal sid ok ok_save now u1 u2 u3 u4) st =
     fst (simulate_signal ok ok_save now u1 u2 u3 u4 st sid)"

text \<open>The status of the record \<open>i\<close> of a collection, when the record exists.\<close>

definition status_of :: "coll \<Rightarrow> jv \<Rightarrow> jv option" where
  "status_of c i = (case map_of c i of None \<Rightarrow> None | Some d \<Rightarrow> Some (field (JObj d) ''status''))"

text \<open>An existing record that was not online is online afterwards.\<close>

definition becomes_online :: "coll \<Rightarrow> coll \<Rightarrow> jv \<Rightarrow> bool" where
  "becomes_online c c' i =
     (case status_of c i of
        None \<Rightarrow> False
      | Some s \<Rightarrow> s \<noteq> JStr ''online'' \<and> status_of c' i = Some (JStr ''online''))"

text \<open>
  The actions that can bring a record online: a device connect with the valid secret, an
  operator's update that carries the status (a REST update, or a control event whose
  settings carry it), and the simulator's camera tick when it draws a new status.
\<close>

fun sets_online :: "jv \<Rightarrow> bool" where
  "sets_online (JObj fs) = ((''status'', JStr ''online'') \<in> set fs)"
| "sets_online (JArr xs) = False"
| "sets_online v = False"

fun online_cause :: "env \<Rightarrow> action \<Rightarrow> bool" where
  "online_cause ev (DeviceConnect sid ok now data) =
     (field data ''apiKey'' = env_value (DEVICE_API_KEY ev))"
| "online_cause ev (CameraControl sid ok data) = sets_online (field data ''settings'')"
| "online_cause ev (SignalControl sid ok data) = sets_online (field data ''settings'')"
| "online_cause ev (SignalsPut ok pid b) = (field b ''status'' = JStr ''online'')"
| "online_cause ev (CamerasPut ok pid b) = (field b ''status'' = JStr ''online'')"
| "online_cause ev (AppCamerasPut ok ok_save now pid b) = (field b ''status'' = JStr ''online'')"
| "online_cause ev (AppSignalsPut ok ok_save now pid b) = (field b ''status'' = JStr ''online'')"
| "online_cause ev (SimulateCamera sid ok ok_save now u1 u2 u3) = (u2 < 1 / 10)"
| "online_cause ev a = False"

section \<open>Metrics of the expected types\<close>





section \<open>Example inputs\<close>

definition example_state :: state where
  "example_state =
     \<lparr>cameras =
        [(JStr ''c1'', [(''_id'', JStr ''c1''), (''name'', JStr ''Junction 1 - North''),
                        (''status'', JStr ''offline'')])],
      signals =
        [(JStr ''s1'', [(''_id'', JStr ''s1''), (''name'', JStr ''Junction 1''),
                        (''status'', JStr ''offline''), (''mode'', JStr ''Scheduled'')])],
      analytics = [],
      rooms = []\<rparr>"

definition example_env :: env where
  "example_env = \<lparr>DEVICE_API_KEY = Some ''device-secret''\<rparr>"

definition example_oracle :: aoracle where
  "example_oracle =
     \<lparr>create_ok = True, create_time = 1000, aggregate_ok = True, aggregate_time = 1001\<rparr>"

definition camera_push :: "string \<Rightarrow> jv" where
  "camera_push i =
     JObj [(''type'', JStr ''camera''), (''id'', JStr i),
           (''metrics'', JObj [(''vehicleCount'', JNum 12), (''averageSpeed'', JNum 40)])]"

definition signal_push :: "string \<Rightarrow> jv" where
  "signal_push i =
     JObj [(''type'', JStr ''signal''), (''id'', JStr i),
           (''metrics'', JObj [(''currentPhase'', JStr ''East-West Green''),
                              (''remainingTime'', JStr ''15s'')])]"


text \<open>
  A signal as \<open>POST /signals\<close> creates it, and a telemetry push for it whose metrics carry
  a waiting time next to the phase and the remaining time.
\<close>

definition junction_id :: string where
  "junction_id = ''65a1f0c2b3d4e5f60718293a''"

definition junction_signal :: doc where
  "junction_signal =
     [(''_id'', JStr junction_id), (''status'', JStr ''offline''), (''mode'', JStr ''AI''),
      (''currentPhase'', JStr ''North-South Green''), (''remainingTime'', JStr ''0s''),
      (''congestionLevel'', JStr ''Unknown''),
      (''settings'', JObj [(''phases'', JArr []),
                          (''schedule'', JObj [(''enabled'', JBool False), (''timings'', JArr [])])]),
      (''createdAt'', JNum 500), (''name'', JStr ''Junction 1''),
      (''location'', JStr ''Main Street / 1st Avenue'')]"

definition signal_telemetry :: jv where
  "signal_telemetry =
     JObj [(''type'', JStr ''signal''), (''id'', JStr junction_id),
           (''metrics'', JObj [(''currentPhase'', JStr ''East-West Green''),
                              (''remainingTime'', JStr ''15s''), (''waitTime'', JNum 30)])]"

text \<open>A stored sample with the given timestamp, traffic volume and congestion level.\<close>

definition sample_at :: "int \<Rightarrow> int \<Rightarrow> string \<Rightarrow> sample" where
  "sample_at t v l =
     \<lparr>timestamp = t, trafficVolume = JNum v, congestionLevel = JStr l, averageSpeed = JNum 30,
      vehicleTypes = JObj [(''cars'', JNum v), (''motorcycles'', JNum 0), (''trucks'', JNum 0)],
      junctionId = JUndef\<rparr>"

section \<open>Properties of the REST handlers\<close>

text \<open>
  C1. A REST update (\<open>PUT /signals/:id\<close>, \<open>PUT /cameras/:id\<close>) that finds its target
  answers 200 with the record after the update, and the one message it publishes to the
  "admin" group is \<open>signalUpdate\<close> (\<open>cameraUpdate\<close>) carrying that same record, which is
  also the record now held by the store.
\<close>

theorem put_response_is_admin_broadcast:
  assumes "ok" and "\<not> nullish b"
  shows "(map_of (signals st) (JStr pid) \<noteq> None \<longrightarrow>
           (case signals_put ok st pid b of (res, ems, st') \<Rightarrow>
              code res = 200 \<and>
              filter (\<lambda>e. fst e = ToRoom ''admin'') ems =
                [(ToRoom ''admin'', ''signalUpdate'', PJson (body res))] \<and>
              findById True (signals st') (JStr pid) = Inr (body res))) \<and>
         (map_of (cameras st) (JStr pid) \<noteq> None \<longrightarrow>
           (case cameras_put ok st pid b of (res, ems, st') \<Rightarrow>
              code res = 200 \<and>
              filter (\<lambda>e. fst e = ToRoom ''admin'') ems =
                [(ToRoom ''admin'', ''cameraUpdate'', PJson (body res))] \<and>
              findById True (cameras st') (JStr pid) = Inr (body res)))"
  using assms
  by (auto simp: signals_put_def cameras_put_def findByIdAndUpdate_def findById_def Let_def
      update_conv' simp del: set_fields.simps)

theorem put_response_is_admin_broadcast_witness:
  "(case signals_put True example_state ''s1'' (JObj [(''status'', JStr ''warning'')]) of
      (res, ems, st') \<Rightarrow>
        code res = 200 \<and>
        filter (\<lambda>e. fst e = ToRoom ''admin'') ems =
          [(ToRoom ''admin'', ''signalUpdate'', PJson (body res))] \<and>
        findById True (signals st') (JStr ''s1'') = Inr (body res)) \<and>
   (case cameras_put True example_state ''c1'' (JObj [(''status'', JStr ''warning'')]) of
      (res, ems, st') \<Rightarrow>
        code res = 200 \<and>
        filter (\<lambda>e. fst e = ToRoom ''admin'') ems =
          [(ToRoom ''admin'', ''cameraUpdate'', PJson (body res))] \<and>
        findById True (cameras st') (JStr ''c1'') = Inr (body res))"
proof -
  have b: "\<not> nullish (JObj [(''status'', JStr ''warning'')])"
    by (simp add: nullish_def)
  have s: "map_of (signals example_state) (JStr ''s1'') \<noteq> None"
    and c: "map_of (cameras example_state) (JStr ''c1'') \<noteq> None"
    by (simp_all add: example_state_def)
  note t = put_response_is_admin_broadcast [OF TrueI b]
  from t [of example_state "''s1''", THEN conjunct1, THEN mp, OF s]
    t [of example_state "''c1''", THEN conjunct2, THEN mp, OF c]
  show ?thesis by (rule conjI)
qed

text \<open>
  C8. A \<open>DELETE\<close> whose id is absent from the store answers 404, publishes nothing and
  leaves the store as it was.
\<close>

theorem delete_absent_is_not_found:
  assumes "ok"
  shows "(map_of (signals st) (JStr pid) = None \<longrightarrow>
            signals_delete ok st pid =
              (\<lparr>code = 404, body = message ''Signal not found''\<rparr>, [], st)) \<and>
         (map_of (cameras st) (JStr pid) = None \<longrightarrow>
            cameras_delete ok st pid =
              (\<lparr>code = 404, body = message ''Camera not found''\<rparr>, [], st))"
  using assms
  by (simp add: signals_delete_def cameras_delete_def findByIdAndDelete_def)

theorem delete_absent_is_not_found_witness:
  "signals_delete True example_state ''nope'' =
     (\<lparr>code = 404, body = message ''Signal not found''\<rparr>, [], example_state) \<and>
   cameras_delete True example_state ''nope'' =
     (\<lparr>code = 404, body = message ''Camera not found''\<rparr>, [], example_state)"
proof -
  have "map_of (signals example_state) (JStr ''nope'') = None"
    and "map_of (cameras example_state) (JStr ''nope'') = None"
    by (simp_all add: example_state_def)
  with delete_absent_is_not_found [OF TrueI, of example_state "''nope''"]
  show ?thesis by blast
qed

section \<open>Properties of the socket handlers\<close>

text \<open>
  C2. A \<open>deviceConnect\<close> whose \<open>apiKey\<close> differs from the device secret changes nothing:
  no group is joined, no record is written (so no status becomes online), and the only
  message is the \<open>error\<close> event sent back to the sender.
\<close>

theorem deviceConnect_wrong_key:
  "field data ''apiKey'' \<noteq> env_value (DEVICE_API_KEY ev) \<Longrightarrow>
   deviceConnect ev ok now st sid data = (st, [error_event sid ''Authentication failed''])"
  by (simp add: deviceConnect_def Let_def)

theorem deviceConnect_wrong_key_witness:
  "deviceConnect example_env True 1000 example_state 7
     (JObj [(''type'', JStr ''camera''), (''id'', JStr ''c1''), (''apiKey'', JStr ''guess'')])
   = (example_state, [error_event 7 ''Authentication failed''])"
  using deviceConnect_wrong_key [of
      "JObj [(''type'', JStr ''camera''), (''id'', JStr ''c1''), (''apiKey'', JStr ''guess'')]"
      example_env True 1000 example_state 7]
  by (simp add: example_env_def env_value_def)

subsection \<open>Facts about the store and the aggregator\<close>

lemma map_of_set_fields:
  "map_of (set_fields u d) k =
     (case map_of (rev (filter (\<lambda>(k, v). v \<noteq> JUndef) u)) k of
        None \<Rightarrow> map_of d k | Some v \<Rightarrow> Some v)"
proof (induction u arbitrary: d)
  case Nil
  show ?case by simp
next
  case (Cons a u)
  obtain k' v' where a: "a = (k', v')" by (cases a)
  show ?case
  proof (cases "v' = JUndef")
    case True
    then show ?thesis by (simp add: a Cons.IH)
  next
    case False
    then show ?thesis
      by (simp add: a Cons.IH update_conv' map_add_def split: option.splits)
  qed
qed

lemma field_update:
  "field (JObj (AList.update k v d)) k' = (if k' = k then v else field (JObj d) k')"
  by (simp add: update_conv')

lemma field_set_fields:
  "field (JObj (set_fields u d)) k =
     (case map snd (filter (\<lambda>(k', v). k' = k \<and> v \<noteq> JUndef) u) of
        [] \<Rightarrow> field (JObj d) k | v # vs \<Rightarrow> last (v # vs))"
proof (induction u arbitrary: d)
  case Nil
  show ?case by simp
next
  case (Cons a u)
  obtain k' v' where a: "a = (k', v')" by (cases a)
  consider "v' = JUndef" | "v' \<noteq> JUndef" "k' = k" | "v' \<noteq> JUndef" "k' \<noteq> k" by blast
  then show ?case
  proof cases
    case 1
    then show ?thesis by (simp add: a Cons.IH del: field.simps)
  next
    case 2
    then show ?thesis
      by (simp add: a Cons.IH field_update del: field.simps split: list.splits)
  next
    case 3
    then show ?thesis
      by (simp add: a Cons.IH field_update del: field.simps split: list.splits)
  qed
qed

lemma analytics_emits_to_admin:
  "e \<in> set (snd (processTrafficAnalytics ao st m)) \<Longrightarrow>
     fst e = ToRoom ''admin'' \<and> fst (snd e) = ''analyticsUpdate''"
  by (auto simp: processTrafficAnalytics_def Let_def split: if_splits list.splits option.splits)

lemma analytics_keeps_cameras:
  "processTrafficAnalytics ao st m = (st2, ems2) \<Longrightarrow> cameras st2 = cameras st"
  by (auto simp: processTrafficAnalytics_def Let_def split: if_splits list.splits option.splits)

subsection \<open>Telemetry pushes\<close>

text \<open>
  C10. A \<open>deviceData\<close> push whose id matches no record is not reported as an error: no
  message goes to the sender, and the handler still publishes \<open>cameraUpdate\<close> (type
  "camera") or \<open>signalUpdate\<close> (type "signal") to "admin" with the null returned by the
  store. The store call is assumed to return, and a signal push to carry metrics.
\<close>

theorem deviceData_unknown_id_publishes_null:
  assumes "ok" and "\<not> nullish data"
  shows "(field data ''type'' = JStr ''camera'' \<and>
            map_of (cameras st) (field data ''id'') = None \<longrightarrow>
          (case deviceData ok now ao st sid data of (st', ems) \<Rightarrow>
             ems \<noteq> [] \<and> hd ems = (ToRoom ''admin'', ''cameraUpdate'', PJson JNull) \<and>
             (\<forall>e \<in> set ems. fst e = ToRoom ''admin'' \<and> fst (snd e) \<noteq> ''error'') \<and>
             cameras st' = cameras st)) \<and>
         (field data ''type'' = JStr ''signal'' \<and> \<not> nullish (field data ''metrics'') \<and>
            map_of (signals st) (field data ''id'') = None \<longrightarrow>
          deviceData ok now ao st sid data =
            (st, [(ToRoom ''admin'', ''signalUpdate'', PJson JNull)]))"
proof (intro conjI impI)
  assume a: "field data ''type'' = JStr ''camera'' \<and>
             map_of (cameras st) (field data ''id'') = None"
  obtain st2 ems2 where p: "processTrafficAnalytics ao st (field data ''metrics'') = (st2, ems2)"
    by (cases "processTrafficAnalytics ao st (field data ''metrics'')")
  have dd: "deviceData ok now ao st sid data =
         (st2, (ToRoom ''admin'', ''cameraUpdate'', PJson JNull) # ems2)"
    using assms a p
    by (simp add: deviceData_def findByIdAndUpdate_def Let_def del: set_fields.simps)
  have "\<forall>e \<in> set ems2. fst e = ToRoom ''admin'' \<and> fst (snd e) \<noteq> ''error''"
    using analytics_emits_to_admin [of _ ao st "field data ''metrics''"] p
    by auto
  moreover have "cameras st2 = cameras st"
    using analytics_keeps_cameras [OF p] .
  ultimately show "case deviceData ok now ao st sid data of (st', ems) \<Rightarrow>
             ems \<noteq> [] \<and> hd ems = (ToRoom ''admin'', ''cameraUpdate'', PJson JNull) \<and>
             (\<forall>e \<in> set ems. fst e = ToRoom ''admin'' \<and> fst (snd e) \<noteq> ''error'') \<and>
             cameras st' = cameras st"
    by (simp add: dd)
next
  assume "field data ''type'' = JStr ''signal'' \<and> \<not> nullish (field data ''metrics'') \<and>
            map_of (signals st) (field data ''id'') = None"
  then show "deviceData ok now ao st sid data =
            (st, [(ToRoom ''admin'', ''signalUpdate'', PJson JNull)])"
    using assms by (simp add: deviceData_def findByIdAndUpdate_def Let_def del: set_fields.simps)
qed

theorem deviceData_unknown_id_publishes_null_witness:
  "(case deviceData True 1000 example_oracle example_state 7 (camera_push ''zz'') of
      (st', ems) \<Rightarrow>
        ems \<noteq> [] \<and> hd ems = (ToRoom ''admin'', ''cameraUpdate'', PJson JNull) \<and>
        (\<forall>e \<in> set ems. fst e = ToRoom ''admin'' \<and> fst (snd e) \<noteq> ''error'') \<and>
        cameras st' = cameras example_state) \<and>
   deviceData True 1000 example_oracle example_state 7 (signal_push ''zz'') =
     (example_state, [(ToRoom ''admin'', ''signalUpdate'', PJson JNull)])"
proof -
  have c: "\<not> nullish (camera_push ''zz'')" and s: "\<not> nullish (signal_push ''zz'')"
    by (simp_all add: nullish_def camera_push_def signal_push_def)
  have hc: "field (camera_push ''zz'') ''type'' = JStr ''camera'' \<and>
            map_of (cameras example_state) (field (camera_push ''zz'') ''id'') = None"
    by (simp add: camera_push_def example_state_def)
  have hs: "field (signal_push ''zz'') ''type'' = JStr ''signal'' \<and>
            \<not> nullish (field (signal_push ''zz'') ''metrics'') \<and>
            map_of (signals example_state) (field (signal_push ''zz'') ''id'') = None"
    by (simp add: signal_push_def example_state_def nullish_def)
  from deviceData_unknown_id_publishes_null [OF TrueI c, THEN conjunct1, THEN mp, OF hc]
    deviceData_unknown_id_publishes_null [OF TrueI s, THEN conjunct2, THEN mp, OF hs]
  show ?thesis by (rule conjI)
qed

text \<open>
  What a push writes, for every input: a camera's \<open>metrics\<close> become the pushed metrics,
  reduced to the paths of the schema, whatever they were before; a signal's \<open>metrics\<close>
  stay what they were, because \<open>metrics\<close> is no path of the schema of \<open>models/Signal.js\<close>.
\<close>

lemma strict_key_CameraSchema_metrics:
  "strict_key CameraSchema ''metrics'' v =
     [(''metrics'',
       strict_value
         (Nested [(''vehicleCount'', Leaf), (''congestionLevel'', Leaf), (''averageSpeed'', Leaf),
                  (''vehicleTypes'',
                   Nested [(''cars'', Leaf), (''motorcycles'', Leaf), (''trucks'', Leaf)])]) v)]"
  by (simp add: CameraSchema_def)

lemma strict_value_undef: "strict_value ps v = JUndef \<longleftrightarrow> v = JUndef"
  by (cases ps; cases v) simp_all

lemma deviceData_camera_record:
  assumes "ok" and "\<not> nullish data" and "field data ''type'' = JStr ''camera''"
    and "map_of (cameras st) (field data ''id'') = Some d"
    and "field data ''metrics'' \<noteq> JUndef"
  shows "case deviceData ok now ao st sid data of (st', ems) \<Rightarrow>
     (case map_of (cameras st') (field data ''id'') of
        None \<Rightarrow> False
      | Some d' \<Rightarrow>
          field (JObj d') ''lastSeen'' = JNum now \<and>
          field (JObj d') ''metrics'' =
            strict_value
              (Nested [(''vehicleCount'', Leaf), (''congestionLevel'', Leaf),
                       (''averageSpeed'', Leaf),
                       (''vehicleTypes'',
                        Nested [(''cars'', Leaf), (''motorcycles'', Leaf), (''trucks'', Leaf)])])
              (field data ''metrics'') \<and>
          hd ems = (ToRoom ''admin'', ''cameraUpdate'', PJson (JObj d')))"
proof -
  define m where "m = strict_value
              (Nested [(''vehicleCount'', Leaf), (''congestionLevel'', Leaf),
                       (''averageSpeed'', Leaf),
                       (''vehicleTypes'',
                        Nested [(''cars'', Leaf), (''motorcycles'', Leaf), (''trucks'', Leaf)])])
              (field data ''metrics'')"
  define u where "u = [(''lastSeen'', JNum now), (''metrics'', m)]"
  have su: "strict_fields CameraSchema
              [(''lastSeen'', JNum now), (''metrics'', field data ''metrics'')] = u"
    by (simp add: strict_key_CameraSchema_metrics u_def m_def) (simp add: CameraSchema_def)
  define st1 where
    "st1 = st\<lparr>cameras := AList.update (field data ''id'') (set_fields u d) (cameras st)\<rparr>"
  obtain st2 ems2 where p: "processTrafficAnalytics ao st1 (field data ''metrics'') = (st2, ems2)"
    by (cases "processTrafficAnalytics ao st1 (field data ''metrics'')")
  have dd: "deviceData ok now ao st sid data =
         (st2, (ToRoom ''admin'', ''cameraUpdate'', PJson (JObj (set_fields u d))) # ems2)"
    using assms(1-4) p
    by (simp add: deviceData_def findByIdAndUpdate_def Let_def su st1_def
        del: set_fields.simps strict_fields.simps)
  have c2: "map_of (cameras st2) (field data ''id'') = Some (set_fields u d)"
    using analytics_keeps_cameras [OF p] by (simp add: st1_def update_conv')
  have mu: "m \<noteq> JUndef"
    using assms(5) by (simp add: m_def strict_value_undef)
  have f: "field (JObj (set_fields u d)) ''lastSeen'' = JNum now"
      "field (JObj (set_fields u d)) ''metrics'' = m"
    using mu by (simp_all add: u_def update_conv')
  show ?thesis
    using f by (simp add: dd c2 m_def del: field.simps)
qed

lemma deviceData_signal_record:
  assumes "ok" and "\<not> nullish data" and "field data ''type'' = JStr ''signal''"
    and "map_of (signals st) (field data ''id'') = Some d"
    and "\<not> nullish (field data ''metrics'')"
  shows "case deviceData ok now ao st sid data of (st', ems) \<Rightarrow>
     (case map_of (signals st') (field data ''id'') of
        None \<Rightarrow> False
      | Some d' \<Rightarrow>
          field (JObj d') ''lastSeen'' = JNum now \<and>
          field (JObj d') ''metrics'' = field (JObj d) ''metrics'' \<and>
          ems = [(ToRoom ''admin'', ''signalUpdate'', PJson (JObj d'))])"
proof -
  define m where "m = field data ''metrics''"
  define u where "u = [(''lastSeen'', JNum now), (''currentPhase'', field m ''currentPhase''),
                       (''remainingTime'', field m ''remainingTime'')]"
  have su: "strict_fields SignalSchema
              [(''lastSeen'', JNum now), (''currentPhase'', field m ''currentPhase''),
               (''remainingTime'', field m ''remainingTime''), (''metrics'', m)] = u"
    by (simp add: SignalSchema_def u_def)
  have dd: "deviceData ok now ao st sid data =
         (st\<lparr>signals := AList.update (field data ''id'') (set_fields u d) (signals st)\<rparr>,
          [(ToRoom ''admin'', ''signalUpdate'', PJson (JObj (set_fields u d)))])"
    using assms
    by (simp add: deviceData_def findByIdAndUpdate_def Let_def su m_def [symmetric]
        del: set_fields.simps strict_fields.simps)
  have f: "field (JObj (set_fields u d)) ''lastSeen'' = JNum now"
      "field (JObj (set_fields u d)) ''metrics'' = field (JObj d) ''metrics''"
    by (simp_all add: field_set_fields u_def del: field.simps set_fields.simps)
  show ?thesis
    using f by (simp add: dd update_conv' del: field.simps)
qed

text \<open>
  C5. A \<open>deviceData\<close> push is to set the record's \<open>lastSeen\<close>, replace its \<open>metrics\<close> by
  the pushed metrics and, for a signal, set \<open>currentPhase\<close> and \<open>remainingTime\<close> from
  them, and to publish the record. For a signal the metrics are lost. The push below
  reaches an existing signal with its phase, its remaining time and a waiting time: the
  record stored and published afterwards has the new \<open>lastSeen\<close>, \<open>currentPhase\<close> and
  \<open>remainingTime\<close>, and no \<open>metrics\<close>.
\<close>

theorem deviceData_signal_loses_metrics:
  "deviceData True 1000 example_oracle
     (example_state\<lparr>signals := [(JStr junction_id, junction_signal)]\<rparr>) 7 signal_telemetry =
   (example_state\<lparr>signals :=
      [(JStr junction_id,
        [(''_id'', JStr junction_id), (''status'', JStr ''offline''), (''mode'', JStr ''AI''),
         (''currentPhase'', JStr ''East-West Green''), (''remainingTime'', JStr ''15s''),
         (''congestionLevel'', JStr ''Unknown''),
         (''settings'',
          JObj [(''phases'', JArr []),
                (''schedule'', JObj [(''enabled'', JBool False), (''timings'', JArr [])])]),
         (''createdAt'', JNum 500), (''name'', JStr ''Junction 1''),
         (''location'', JStr ''Main Street / 1st Avenue''), (''lastSeen'', JNum 1000)])]\<rparr>,
    [(ToRoom ''admin'', ''signalUpdate'',
      PJson (JObj
        [(''_id'', JStr junction_id), (''status'', JStr ''offline''), (''mode'', JStr ''AI''),
         (''currentPhase'', JStr ''East-West Green''), (''remainingTime'', JStr ''15s''),
         (''congestionLevel'', JStr ''Unknown''),
         (''settings'',
          JObj [(''phases'', JArr []),
                (''schedule'', JObj [(''enabled'', JBool False), (''timings'', JArr [])])]),
         (''createdAt'', JNum 500), (''name'', JStr ''Junction 1''),
         (''location'', JStr ''Main Street / 1st Avenue''), (''lastSeen'', JNum 1000)]))]) \<and>
   field (field signal_telemetry ''metrics'') ''waitTime'' = JNum 30"
  by (simp add: deviceData_def findByIdAndUpdate_def SignalSchema_def signal_telemetry_def
      junction_signal_def example_state_def nullish_def Let_def)

subsection \<open>Failures of socket-originated mutations\<close>

text \<open>
  When the store call rejects, \<open>cameraControl\<close> and \<open>signalControl\<close> change nothing and
  send one \<open>error\<close> event to the sender; so does \<open>deviceConnect\<close> for a camera or a
  signal (the group joined before the call stays joined).
\<close>

lemma control_failure_reports_error:
  "cameraControl False st sid data = (st, [error_event sid ''Failed to control camera''])"
  "signalControl False st sid data = (st, [error_event sid ''Failed to control signal''])"
  by (simp_all add: cameraControl_def signalControl_def findByIdAndUpdate_def Let_def
      split: sum.splits)

lemma deviceConnect_failure_reports_error:
  "field data ''type'' = JStr ''camera'' \<or> field data ''type'' = JStr ''signal'' \<Longrightarrow>
   snd (deviceConnect ev False now st sid data) = [error_event sid ''Authentication failed'']"
  by (auto simp: deviceConnect_def findByIdAndUpdate_def Let_def)

lemma deviceData_failure_emits_nothing:
  "deviceData False now ao st sid data = (st, [])"
  by (simp add: deviceData_def findByIdAndUpdate_def Let_def)

text \<open>
  C6. A socket-originated mutation that fails sends an \<open>error\<close> event with a message to
  the sender and nothing to anyone else. \<open>deviceData\<close> does not: when its store update
  rejects, the push of camera \<open>c1\<close> changes nothing and emits nothing at all; and a push
  for signal \<open>s1\<close> that carries no metrics fails on reading \<open>metrics.currentPhase\<close>,
  again with no message to the sender.
\<close>

theorem deviceData_failure_is_silent:
  "deviceData False 1000 example_oracle example_state 7 (camera_push ''c1'') =
     (example_state, []) \<and>
   deviceData True 1000 example_oracle example_state 7
     (JObj [(''type'', JStr ''signal''), (''id'', JStr ''s1'')]) = (example_state, [])"
  by (simp add: deviceData_def findByIdAndUpdate_def camera_push_def nullish_def Let_def)

subsection \<open>The configuration message of a signal update\<close>

text \<open>
  C9, as stated, fails: a \<open>PUT /signals/:id\<close> whose body includes \<open>currentPhase\<close> with
  the empty string finds its target and stores the phase, but publishes only the admin
  broadcast, no \<open>configUpdate\<close>.
\<close>

theorem signals_put_empty_phase_counterexample:
  "field (JObj [(''currentPhase'', JStr [])]) ''currentPhase'' \<noteq> JUndef \<and>
   code (fst (signals_put True example_state ''s1'' (JObj [(''currentPhase'', JStr [])]))) = 200 \<and>
   fst (snd (signals_put True example_state ''s1'' (JObj [(''currentPhase'', JStr [])]))) =
     [(ToRoom ''admin'', ''signalUpdate'',
       PJson (JObj [(''_id'', JStr ''s1''), (''name'', JStr ''Junction 1''),
                    (''status'', JStr ''offline''), (''mode'', JStr ''Scheduled''),
                    (''currentPhase'', JStr [])]))]"
  by (simp add: signals_put_def findByIdAndUpdate_def SignalSchema_def example_state_def
      nullish_def Let_def)

text \<open>
  C9, amended. A \<open>PUT /signals/:id\<close> that finds its target (a record carrying its own
  id) answers 200 with the stored record, persists the \<open>mode\<close> and \<open>currentPhase\<close> of the
  body, and publishes the record to "admin"; exactly when \<open>mode\<close> or \<open>currentPhase\<close> is
  truthy (for a string: non-empty) it then publishes one \<open>configUpdate\<close> to
  \<open>signal-<id>\<close> whose payload has the three fields \<open>mode\<close>, \<open>currentPhase\<close>,
  \<open>remainingTime\<close> of the body.
\<close>

theorem signals_put_configUpdate:
  assumes "ok" and "\<not> nullish b" and "map_of (signals st) (JStr pid) = Some d"
    and "field (JObj d) ''_id'' = JStr pid"
  shows "case signals_put ok st pid b of (res, ems, st') \<Rightarrow>
     (case map_of (signals st') (JStr pid) of
        None \<Rightarrow> False
      | Some d' \<Rightarrow>
          code res = 200 \<and> body res = JObj d' \<and>
          (field b ''mode'' \<noteq> JUndef \<longrightarrow> field (JObj d') ''mode'' = field b ''mode'') \<and>
          (field b ''currentPhase'' \<noteq> JUndef \<longrightarrow>
             field (JObj d') ''currentPhase'' = field b ''currentPhase'') \<and>
          ems = (ToRoom ''admin'', ''signalUpdate'', PJson (JObj d')) #
                (if truthy (field b ''mode'') \<or> truthy (field b ''currentPhase'')
                 then [(ToRoom (''signal-'' @ pid), ''configUpdate'',
                        PJson (JObj [(''mode'', field b ''mode''),
                                     (''currentPhase'', field b ''currentPhase''),
                                     (''remainingTime'', field b ''remainingTime'')]))]
                 else []))"
proof -
  define u where "u = [(''name'', field b ''name''),
                (''location'', field b ''location''),
                (''coordinates'',
                 strict_value (Nested [(''lat'', Leaf), (''lng'', Leaf)]) (field b ''coordinates'')),
                (''ipAddress'', field b ''ipAddress''),
                (''status'', field b ''status''),
                (''mode'', field b ''mode''),
                (''currentPhase'', field b ''currentPhase''),
                (''remainingTime'', field b ''remainingTime'')]"
  have su: "strict_fields SignalSchema
               [(''name'', field b ''name''),
                (''location'', field b ''location''),
                (''coordinates'', field b ''coordinates''),
                (''ipAddress'', field b ''ipAddress''),
                (''status'', field b ''status''),
                (''mode'', field b ''mode''),
                (''currentPhase'', field b ''currentPhase''),
                (''remainingTime'', field b ''remainingTime'')] = u"
    by (simp add: SignalSchema_def u_def)
  have sp: "signals_put ok st pid b =
     (\<lparr>code = 200, body = JObj (set_fields u d)\<rparr>,
      (ToRoom ''admin'', ''signalUpdate'', PJson (JObj (set_fields u d))) #
      (if truthy (field b ''mode'') \<or> truthy (field b ''currentPhase'')
       then [(ToRoom (''signal-'' @ toString (field (JObj (set_fields u d)) ''_id'')),
              ''configUpdate'',
              PJson (JObj [(''mode'', field b ''mode''),
                           (''currentPhase'', field b ''currentPhase''),
                           (''remainingTime'', field b ''remainingTime'')]))]
       else []),
      st\<lparr>signals := AList.update (JStr pid) (set_fields u d) (signals st)\<rparr>)"
    using assms(1-3)
    by (simp add: signals_put_def findByIdAndUpdate_def Let_def su
        del: set_fields.simps strict_fields.simps)
  have i: "field (JObj (set_fields u d)) ''_id'' = JStr pid"
    using assms(4) by (simp add: field_set_fields u_def del: field.simps set_fields.simps)
  have m: "field b ''mode'' \<noteq> JUndef \<Longrightarrow>
        field (JObj (set_fields u d)) ''mode'' = field b ''mode''"
    by (simp add: field_set_fields u_def del: field.simps set_fields.simps)
  have c: "field b ''currentPhase'' \<noteq> JUndef \<Longrightarrow>
        field (JObj (set_fields u d)) ''currentPhase'' = field b ''currentPhase''"
    by (simp add: field_set_fields u_def del: field.simps set_fields.simps)
  show ?thesis
    using m c by (simp add: sp i update_conv' del: field.simps)
qed

theorem signals_put_configUpdate_witness:
  "signals_put True example_state ''s1''
     (JObj [(''mode'', JStr ''Manual''), (''currentPhase'', JStr ''All-Way Red'')]) =
   (\<lparr>code = 200,
      body = JObj [(''_id'', JStr ''s1''), (''name'', JStr ''Junction 1''),
                   (''status'', JStr ''offline''), (''mode'', JStr ''Manual''),
                   (''currentPhase'', JStr ''All-Way Red'')]\<rparr>,
    [(ToRoom ''admin'', ''signalUpdate'',
      PJson (JObj [(''_id'', JStr ''s1''), (''name'', JStr ''Junction 1''),
                   (''status'', JStr ''offline''), (''mode'', JStr ''Manual''),
                   (''currentPhase'', JStr ''All-Way Red'')])),
     (ToRoom ''signal-s1'', ''configUpdate'',
      PJson (JObj [(''mode'', JStr ''Manual''), (''currentPhase'', JStr ''All-Way Red''),
                   (''remainingTime'', JUndef)]))],
    example_state\<lparr>signals :=
      [(JStr ''s1'', [(''_id'', JStr ''s1''), (''name'', JStr ''Junction 1''),
                      (''status'', JStr ''offline''), (''mode'', JStr ''Manual''),
                      (''currentPhase'', JStr ''All-Way Red'')])]\<rparr>)"
proof -
  have b: "\<not> nullish (JObj [(''mode'', JStr ''Manual''), (''currentPhase'', JStr ''All-Way Red'')])"
    by (simp add: nullish_def)
  have s: "map_of (signals example_state) (JStr ''s1'') =
             Some [(''_id'', JStr ''s1''), (''name'', JStr ''Junction 1''),
                   (''status'', JStr ''offline''), (''mode'', JStr ''Scheduled'')]"
    by (simp add: example_state_def)
  have i: "field (JObj [(''_id'', JStr ''s1''), (''name'', JStr ''Junction 1''),
                        (''status'', JStr ''offline''), (''mode'', JStr ''Scheduled'')]) ''_id'' =
           JStr ''s1''"
    by simp
  from signals_put_configUpdate [OF TrueI b s i]
  show ?thesis
    by (simp add: signals_put_def findByIdAndUpdate_def SignalSchema_def example_state_def
        nullish_def Let_def)
qed

section \<open>Properties of the double-precision results\<close>

text \<open>
  The rounded quotient differs from the exact one by at most half a unit in the last of
  the 53 bits; so does the rounded sum from the exact sum.
\<close>

lemma pow2_powi: "pow2 e = power_int 2 e"
  by (simp add: pow2_def power_int_def inverse_eq_divide power_one_over)

lemma pow2_pos: "0 < pow2 e"
  by (simp add: pow2_powi)

lemma pow2_add: "pow2 (x + y) = pow2 x * pow2 y"
  by (simp add: pow2_powi power_int_add)

lemma pow2_nat: "pow2 (int n) = 2 ^ n"
  by (simp add: pow2_powi)

lemma pow2_neg: "pow2 (- e) = 1 / pow2 e"
  by (simp add: pow2_powi power_int_minus inverse_eq_divide)

lemma round_to_close:
  assumes "0 < b"
  shows "\<bar>(of_nat (round_to a b) :: rat) - of_nat a / of_nat b\<bar> \<le> 1 / 2"
proof -
  define q where "q = a div b"
  define r where "r = a mod b"
  have a: "a = q * b + r"
    by (simp add: q_def r_def)
  have rb: "r < b"
    using assms by (simp add: r_def)
  have b0: "(0 :: rat) < of_nat b"
    using assms by simp
  have e: "(of_nat a :: rat) / of_nat b = of_nat q + of_nat r / of_nat b"
    using b0 by (simp add: a field_simps)
  consider "2 * r < b" | "b < 2 * r" | "2 * r = b" by linarith
  then show ?thesis
  proof cases
    case 1
    then have "round_to a b = q"
      by (simp add: round_to_def Let_def q_def r_def)
    moreover have "(of_nat r :: rat) / of_nat b \<le> 1 / 2"
    proof -
      have "(of_nat (2 * r) :: rat) \<le> of_nat b"
        using 1 by (simp only: of_nat_le_iff)
      then show ?thesis using b0 by (simp add: field_simps)
    qed
    moreover have "(0 :: rat) \<le> of_nat r / of_nat b"
      by simp
    ultimately show ?thesis by (simp add: e)
  next
    case 2
    then have "round_to a b = q + 1"
      by (simp add: round_to_def Let_def q_def r_def)
    moreover have "(1 :: rat) / 2 \<le> of_nat r / of_nat b"
    proof -
      have "(of_nat b :: rat) \<le> of_nat (2 * r)"
        using 2 by (simp only: of_nat_le_iff)
      then show ?thesis using b0 by (simp add: field_simps)
    qed
    moreover have "(of_nat r :: rat) / of_nat b \<le> 1"
    proof -
      have "(of_nat r :: rat) \<le> of_nat b"
        using rb by (simp only: of_nat_le_iff)
      then show ?thesis using b0 by (simp add: field_simps)
    qed
    ultimately show ?thesis by (simp add: e)
  next
    case 3
    then have h: "(of_nat r :: rat) / of_nat b = 1 / 2"
    proof -
      have "(of_nat (2 * r) :: rat) = of_nat b"
        using 3 by (simp only:)
      then show ?thesis using b0 by (simp add: field_simps)
    qed
    have "round_to a b = q \<or> round_to a b = q + 1"
      using 3 by (simp add: round_to_def Let_def q_def r_def)
    then show ?thesis by (auto simp: e h)
  qed
qed

lemma bit_length_bounds:
  "0 < n \<Longrightarrow> 2 ^ (bit_length n - 1) \<le> n \<and> n < 2 ^ bit_length n"
proof (induction n rule: less_induct)
  case (less n)
  show ?case
  proof (cases "n div 2 = 0")
    case True
    with less.prems have "n = 1" by (simp add: div_eq_0_iff) 
    then show ?thesis by (simp add: bit_length.simps)
  next
    case False
    then have p: "0 < n div 2" and l: "n div 2 < n"
      using less.prems by simp_all
    from less.IH [OF l p]
    have ih: "2 ^ (bit_length (n div 2) - 1) \<le> n div 2" "n div 2 < 2 ^ bit_length (n div 2)"
      by simp_all
    have bl: "bit_length n = Suc (bit_length (n div 2))"
      using less.prems by (subst bit_length.simps) simp
    have pos: "0 < bit_length (n div 2)"
      using p by (subst bit_length.simps) simp
    then have "(2::nat) ^ bit_length (n div 2) = 2 * 2 ^ (bit_length (n div 2) - 1)"
      by (cases "bit_length (n div 2)") simp_all
    with ih(1) have "2 ^ bit_length (n div 2) \<le> 2 * (n div 2)"
      by simp
    then have lo: "2 ^ (bit_length n - 1) \<le> n"
      unfolding bl by simp
    have "n < 2 * (n div 2) + 2" by linarith
    also have "\<dots> \<le> 2 * 2 ^ bit_length (n div 2)"
      using ih(2) by simp
    finally have hi: "n < 2 ^ bit_length n"
      unfolding bl by simp
    from lo hi show ?thesis ..
  qed
qed


lemma binary_exponent_le:
  assumes "0 < a" and "0 < d"
  shows "pow2 (binary_exponent a d) \<le> of_nat a / of_nat d"
proof -
  define e0 where "e0 = int (bit_length a) - int (bit_length d)"
  have d0: "(0::rat) < of_nat d"
    using assms(2) by simp
  show ?thesis
  proof (cases "if 0 \<le> e0 then d * 2 ^ nat e0 \<le> a else d \<le> a * 2 ^ nat (- e0)")
    case True
    have be: "binary_exponent a d = e0"
      unfolding binary_exponent_def Let_def e0_def [symmetric] using True by simp
    show ?thesis
    proof (cases "0 \<le> e0")
      case p: True
      with True have "d * 2 ^ nat e0 \<le> a" by simp
      then have "(of_nat (d * 2 ^ nat e0) :: rat) \<le> of_nat a"
        by (simp only: of_nat_le_iff)
      then have "(2::rat) ^ nat e0 \<le> of_nat a / of_nat d"
        using d0 by (simp add: field_simps)
      then show ?thesis using p by (simp add: be pow2_def)
    next
      case n: False
      with True have "d \<le> a * 2 ^ nat (- e0)" by simp
      then have "(of_nat d :: rat) \<le> of_nat (a * 2 ^ nat (- e0))"
        by (simp only: of_nat_le_iff)
      then have "1 / (2::rat) ^ nat (- e0) \<le> of_nat a / of_nat d"
        using d0 by (simp add: field_simps)
      then show ?thesis using n by (simp add: be pow2_def)
    qed
  next
    case False
    have be: "binary_exponent a d = e0 - 1"
      unfolding binary_exponent_def Let_def e0_def [symmetric] using False by simp
    from bit_length_bounds [OF assms(1)] have "2 ^ (bit_length a - 1) \<le> a" ..
    then have "(of_nat (2 ^ (bit_length a - 1)) :: rat) \<le> of_nat a"
      by (simp only: of_nat_le_iff)
    then have la: "(2::rat) ^ (bit_length a - 1) \<le> of_nat a"
      by simp
    from bit_length_bounds [OF assms(2)] have "d < 2 ^ bit_length d" ..
    then have "(of_nat d :: rat) < of_nat (2 ^ bit_length d)"
      by (simp only: of_nat_less_iff)
    then have ud: "(of_nat d :: rat) \<le> 2 ^ bit_length d"
      by simp
    have pa: "0 < bit_length a"
      using assms(1) by (subst bit_length.simps) simp
    then have "e0 - 1 = int (bit_length a - 1) - int (bit_length d)"
      by (simp add: e0_def of_nat_diff)
    then have "pow2 (e0 - 1) = 2 ^ (bit_length a - 1) / 2 ^ bit_length d"
      by (simp add: pow2_powi power_int_diff)
    also have "\<dots> \<le> of_nat a / of_nat d"
      using la d0 ud by (intro frac_le) simp_all
    finally show ?thesis by (simp add: be)
  qed
qed

lemma round_ratio_close:
  assumes "0 < d"
  shows "\<bar>round_ratio n d - of_int n / of_nat d\<bar> \<le> \<bar>of_int n / of_nat d\<bar> / 2 ^ 53"
proof (cases "n = 0")
  case True
  then show ?thesis by (simp add: round_ratio_def)
next
  case False
  define a where "a = nat \<bar>n\<bar>"
  define e where "e = binary_exponent a d"
  define k where "k = 52 - e"
  define m where
    "m = (if 0 \<le> k then round_to (a * 2 ^ nat k) d else round_to a (d * 2 ^ nat (- k)))"
  define x where "x = (of_nat a :: rat) / of_nat d"
  have a0: "0 < a"
    using False by (simp add: a_def)
  have d0: "(0::rat) < of_nat d"
    using assms by simp
  have x0: "0 < x"
    using a0 d0 by (simp add: x_def)
  have rr: "round_ratio n d = of_int (sgn n * int m) * pow2 (- k)"
    using False by (simp add: round_ratio_def Let_def a_def e_def k_def m_def)
  have mx: "\<bar>of_nat m - x * pow2 k\<bar> \<le> 1 / 2"
  proof (cases "0 \<le> k")
    case True
    then have "m = round_to (a * 2 ^ nat k) d"
      by (simp add: m_def)
    moreover have "(of_nat (a * 2 ^ nat k) :: rat) / of_nat d = x * pow2 k"
      using True by (simp add: x_def pow2_def)
    ultimately show ?thesis
      using round_to_close [OF assms, of "a * 2 ^ nat k"] by simp
  next
    case False
    then have "m = round_to a (d * 2 ^ nat (- k))"
      by (simp add: m_def)
    moreover have "(of_nat a :: rat) / of_nat (d * 2 ^ nat (- k)) = x * pow2 k"
      using False by (simp add: x_def pow2_def)
    moreover have "0 < d * 2 ^ nat (- k)"
      using assms by simp
    ultimately show ?thesis
      using round_to_close [of "d * 2 ^ nat (- k)" a] by simp
  qed
  have an: "(of_nat a :: rat) = \<bar>of_int n\<bar>"
    by (simp add: a_def)
  have nx: "(of_int n :: rat) / of_nat d = of_int (sgn n) * x"
  proof -
    have "(of_int n :: rat) = of_int (sgn n) * \<bar>of_int n\<bar>"
      by (simp add: mult_sgn_abs flip: of_int_abs of_int_mult)
    then show ?thesis by (simp add: x_def an)
  qed
  have inv: "pow2 (- k) * pow2 k = 1"
    using pow2_add [of "- k" k] by (simp add: pow2_def)
  have "round_ratio n d - of_int n / of_nat d =
        of_int (sgn n) * (pow2 (- k) * (of_nat m - x * pow2 k))"
  proof -
    have "of_int (sgn n) * (pow2 (- k) * (of_nat m - x * pow2 k)) =
          of_int (sgn n) * of_nat m * pow2 (- k) - of_int (sgn n) * x * (pow2 (- k) * pow2 k)"
      by (simp add: algebra_simps)
    then show ?thesis by (simp add: rr nx inv)
  qed
  then have "\<bar>round_ratio n d - of_int n / of_nat d\<bar> =
             pow2 (- k) * \<bar>of_nat m - x * pow2 k\<bar>"
    using False pow2_pos [of "- k"] by (simp add: abs_mult abs_sgn_eq flip: of_int_abs)
  also have "\<dots> \<le> pow2 (- k) * (1 / 2)"
    using mx pow2_pos [of "- k"] by (intro mult_left_mono) simp_all
  also have "pow2 (- k) = pow2 e / 2 ^ 52"
  proof -
    have "- k = e + (- 52)" by (simp add: k_def)
    then have "pow2 (- k) = pow2 e * pow2 (- 52)"
      by (simp only: pow2_add)
    then show ?thesis by (simp add: pow2_def)
  qed
  also have "pow2 e / 2 ^ 52 * (1 / 2) = pow2 e / 2 ^ 53"
    by simp
  also have "\<dots> \<le> x / 2 ^ 53"
    using binary_exponent_le [OF a0 assms] by (simp add: e_def x_def divide_right_mono)
  also have "x = \<bar>of_int n / of_nat d\<bar>"
    using x0 by (simp add: nx abs_mult abs_sgn_eq False flip: of_int_abs)
  finally show ?thesis .
qed

text \<open>An integer below \<open>2\<^sup>5\<^sup>3\<close> in magnitude is a double.\<close>

lemma round_int_small:
  assumes "\<bar>s\<bar> < 2 ^ 53"
  shows "round_int s = s"
proof -
  from assms have "nat \<bar>s\<bar> < 2 ^ 53"
    by (simp add: nat_less_iff)
  then show ?thesis
    unfolding round_int_def Let_def by (simp only: if_True)
qed


lemma round_int_close:
  "\<bar>(of_int (round_int s) :: rat) - of_int s\<bar> \<le> \<bar>of_int s\<bar> / 2 ^ 53"
proof (cases "nat \<bar>s\<bar> < 2 ^ 53")
  case True
  then have "round_int s = s"
    unfolding round_int_def Let_def by (simp only: if_True)
  then show ?thesis by simp
next
  case False
  define a where "a = nat \<bar>s\<bar>"
  define k where "k = bit_length a - 53"
  define q where "q = round_to a (2 ^ k)"
  have big: "\<not> a < 2 ^ 53"
    using False by (simp add: a_def)
  then have a0: "0 < a"
    by (cases "a = 0") simp_all
  from bit_length_bounds [OF a0] have lo: "2 ^ (bit_length a - 1) \<le> a" and hi: "a < 2 ^ bit_length a"
    by simp_all
  have "53 < bit_length a"
  proof (rule ccontr)
    assume "\<not> 53 < bit_length a"
    then have "(2::nat) ^ bit_length a \<le> 2 ^ 53"
      by (intro power_increasing) simp_all
    with hi big show False by simp
  qed
  then have kb: "bit_length a - 1 = k + 52"
    by (simp add: k_def)
  have ri: "round_int s = sgn s * int (q * 2 ^ k)"
    using False unfolding round_int_def Let_def a_def [symmetric] k_def [symmetric] q_def
    by (simp add: a_def)
  have qc: "\<bar>(of_nat q :: rat) - of_nat a / 2 ^ k\<bar> \<le> 1 / 2"
    using round_to_close [of "2 ^ k" a] by (simp add: q_def)
  have sa: "(of_int s :: rat) = of_int (sgn s) * of_nat a"
    by (simp add: a_def mult_sgn_abs flip: of_int_abs of_int_mult)
  have s0: "s \<noteq> 0"
    using a0 by (auto simp: a_def)
  have "(of_int (round_int s) :: rat) - of_int s =
        of_int (sgn s) * (2 ^ k * (of_nat q - of_nat a / 2 ^ k))"
    by (simp add: ri sa algebra_simps)
  then have "\<bar>(of_int (round_int s) :: rat) - of_int s\<bar> =
             2 ^ k * \<bar>(of_nat q :: rat) - of_nat a / 2 ^ k\<bar>"
    using s0 by (simp add: abs_mult abs_sgn_eq flip: of_int_abs)
  also have "\<dots> \<le> 2 ^ k * (1 / 2)"
    using qc by (intro mult_left_mono) simp_all
  also have "\<dots> = 2 ^ (k + 52) / 2 ^ 53"
    by (simp add: power_add)
  also have "\<dots> \<le> of_nat a / 2 ^ 53"
  proof -
    from lo have "(of_nat (2 ^ (k + 52)) :: rat) \<le> of_nat a"
      unfolding kb by (simp only: of_nat_le_iff)
    then show ?thesis by (simp add: divide_right_mono)
  qed
  also have "(of_nat a :: rat) = \<bar>of_int s\<bar>"
    by (simp add: a_def)
  finally show ?thesis .
qed

text \<open>The result of \<open>$avg\<close> is the mean up to a relative error of \<open>2\<^sup>-\<^sup>5\<^sup>1\<close>.\<close>

lemma mean_close:
  assumes "0 < c"
  shows "\<bar>round_ratio (round_int s) c - of_int s / of_nat c\<bar> \<le> \<bar>of_int s / of_nat c\<bar> / 2 ^ 51"
proof -
  define e :: rat where "e = 1 / 2 ^ 53"
  define x :: rat where "x = of_int s / of_nat c"
  define y :: rat where "y = of_int (round_int s) / of_nat c"
  have c0: "(0::rat) < of_nat c"
    using assms by simp
  have e0: "0 \<le> e" "e \<le> 1"
    by (simp_all add: e_def)
  have "\<bar>y - x\<bar> = \<bar>(of_int (round_int s) :: rat) - of_int s\<bar> / of_nat c"
    using c0 by (simp add: x_def y_def diff_divide_distrib [symmetric])
  also have "\<dots> \<le> (\<bar>of_int s\<bar> / 2 ^ 53) / of_nat c"
    using round_int_close [of s] c0 by (intro divide_right_mono) simp_all
  also have "\<dots> = \<bar>x\<bar> * e"
    using c0 by (simp add: x_def e_def)
  finally have yx: "\<bar>y - x\<bar> \<le> \<bar>x\<bar> * e" .
  have "\<bar>y\<bar> \<le> \<bar>x\<bar> + \<bar>y - x\<bar>"
    by simp
  with yx have ya: "\<bar>y\<bar> \<le> \<bar>x\<bar> * (1 + e)"
    by (simp add: algebra_simps)
  have "\<bar>round_ratio (round_int s) c - y\<bar> \<le> \<bar>y\<bar> * e"
    using round_ratio_close [OF assms, of "round_int s"] by (simp add: y_def e_def)
  also have "\<dots> \<le> \<bar>x\<bar> * (1 + e) * e"
    using ya e0 by (intro mult_right_mono) simp_all
  finally have ry: "\<bar>round_ratio (round_int s) c - y\<bar> \<le> \<bar>x\<bar> * (1 + e) * e" .
  have "\<bar>round_ratio (round_int s) c - x\<bar> \<le> \<bar>round_ratio (round_int s) c - y\<bar> + \<bar>y - x\<bar>"
    by simp
  also have "\<dots> \<le> \<bar>x\<bar> * (1 + e) * e + \<bar>x\<bar> * e"
    using ry yx by simp
  also have "\<dots> = \<bar>x\<bar> * ((2 + e) * e)"
    by (simp add: algebra_simps)
  also have "\<dots> \<le> \<bar>x\<bar> * (1 / 2 ^ 51)"
  proof -
    have "(2 + e) * e \<le> 1 / 2 ^ 51"
      by (simp add: e_def)
    then show ?thesis by (intro mult_left_mono) simp_all
  qed
  finally show ?thesis by (simp add: x_def)
qed

lemma double_mean_close:
  "xs \<noteq> [] \<Longrightarrow>
     \<bar>round_ratio (round_int (sum_list xs)) (length xs) - mean xs\<bar> \<le> \<bar>mean xs\<bar> / 2 ^ 51"
  unfolding mean_def by (rule mean_close) simp

section \<open>Properties of the Analytics Aggregator\<close>



lemma last24h_eq: "last24h now = (\<lambda>s. now - 86400000 \<le> timestamp s)"
  by (rule ext) (simp add: last24h_def)

lemmas double_eval =
  round_ratio_def round_int_def binary_exponent_def pow2_def round_to_def bit_length.simps









section \<open>Properties of the hourly trend\<close>

lemma map_of_group_add:
  "map_of (group_add k s gs) k' =
     (if k' = k
      then Some (acc_add s (case map_of gs k of
                              None \<Rightarrow> \<lparr>vol_acc = (0, 0), cong_acc = (0, 0)\<rparr>
                            | Some a \<Rightarrow> a))
      else map_of gs k')"
  by (induction k s gs rule: group_add.induct) auto

lemma keys_group_add:
  "fst ` set (group_add k s gs) = insert k (fst ` set gs)"
  by (induction k s gs rule: group_add.induct) (simp_all add: insert_commute)

lemma distinct_group_add:
  "distinct (map fst gs) \<Longrightarrow> distinct (map fst (group_add k s gs))"
proof (induction k s gs rule: group_add.induct)
  case (1 k s)
  show ?case by simp
next
  case (2 k s k' a gs)
  show ?case
  proof (cases "k = k'")
    case True
    with 2 show ?thesis by simp
  next
    case False
    with 2 show ?thesis by (simp add: keys_group_add)
  qed
qed

lemma fold_group_keys:
  "fst ` set (fold (\<lambda>s. group_add (f s) s) xs gs) = fst ` set gs \<union> f ` set xs"
proof (induction xs arbitrary: gs)
  case Nil
  show ?case by simp
next
  case (Cons x xs)
  show ?case by (simp add: Cons.IH keys_group_add)
qed

lemma fold_group_distinct:
  "distinct (map fst gs) \<Longrightarrow> distinct (map fst (fold (\<lambda>s. group_add (f s) s) xs gs))"
proof (induction xs arbitrary: gs)
  case Nil
  then show ?case by simp
next
  case (Cons x xs)
  from Cons.prems have "distinct (map fst (group_add (f x) x gs))"
    by (rule distinct_group_add)
  then show ?case by (simp add: Cons.IH)
qed

text \<open>The accumulator of a group has seen exactly the samples of its bucket, in order.\<close>

lemma fold_group_map_of:
  "map_of (fold (\<lambda>s. group_add (f s) s) xs gs) k =
     (if filter (\<lambda>s. f s = k) xs = [] then map_of gs k
      else Some (fold acc_add (filter (\<lambda>s. f s = k) xs)
                  (case map_of gs k of
                     None \<Rightarrow> \<lparr>vol_acc = (0, 0), cong_acc = (0, 0)\<rparr>
                   | Some a \<Rightarrow> a)))"
proof (induction xs arbitrary: gs)
  case Nil
  show ?case by simp
next
  case (Cons x xs)
  show ?case
    by (simp add: Cons.IH map_of_group_add)
qed

lemma fold_acc_add:
  "fold acc_add b a =
     \<lparr>vol_acc = fold avg_step (map sample.trafficVolume b) (vol_acc a),
      cong_acc = fold avg_step
                   (map (\<lambda>s. JNum (congestion_score (sample.congestionLevel s))) b)
                   (cong_acc a)\<rparr>"
  by (induction b arbitrary: a) (simp_all add: acc_add_def)

lemma fold_avg_step_scores:
  "fold avg_step (map (\<lambda>s. JNum (g s)) b) (s0, c0) =
     (s0 + sum_list (map g b), c0 + length b)"
  by (induction b arbitrary: s0 c0) simp_all

lemma group_by_hour_row:
  assumes "(k, a) \<in> set (group_by_hour xs)"
  shows "filter (\<lambda>s. hour_id_of (timestamp s) = k) xs \<noteq> [] \<and>
         avg_result (cong_acc a) =
           Some (round_ratio
                   (round_int (sum_list (map (\<lambda>s. congestion_score (sample.congestionLevel s))
                                 (filter (\<lambda>s. hour_id_of (timestamp s) = k) xs))))
                   (length (filter (\<lambda>s. hour_id_of (timestamp s) = k) xs)))"
proof -
  let ?b = "filter (\<lambda>s. hour_id_of (timestamp s) = k) xs"
  have d: "distinct (map fst (group_by_hour xs))"
    unfolding group_by_hour_def by (rule fold_group_distinct) simp
  with assms have m: "map_of (group_by_hour xs) k = Some a"
    by simp
  then have ne: "?b \<noteq> []"
    unfolding group_by_hour_def fold_group_map_of by (simp split: if_splits)
  with m have a: "a = fold acc_add ?b \<lparr>vol_acc = (0, 0), cong_acc = (0, 0)\<rparr>"
    unfolding group_by_hour_def fold_group_map_of by simp
  have "cong_acc a =
      (sum_list (map (\<lambda>s. congestion_score (sample.congestionLevel s)) ?b), length ?b)"
    unfolding a fold_acc_add by (simp add: fold_avg_step_scores)
  with ne show ?thesis by (simp add: avg_result_def)
qed

lemma distinct_map_sort_key:
  "distinct (map f (sort_key f xs)) = distinct (map f xs)"
  by (simp add: distinct_map)

lemma hid_rows:
  "map hid (map (\<lambda>(k, a). \<lparr>hid = k, averageTrafficVolume = avg_result (vol_acc a),
                            averageCongestion = avg_result (cong_acc a)\<rparr>) g) = map fst g"
  by (induction g) auto

subsection \<open>The group key is the calendar hour\<close>

text \<open>
  Within an era of 146097 days, \<open>year_of_era\<close> is monotone, and it is right on the first
  and on the last day of each of the 400 years; so it is right on every day.
\<close>

lemma years_checked:
  "list_all (\<lambda>y. year_of_era (year_start y) = y \<and> year_of_era (year_end y) = y \<and>
                  year_end y - year_start y \<le> 365 \<and> year_start y \<le> year_end y \<and>
                  0 \<le> year_start y \<and> year_end y \<le> 146096) [0..399]"
  by code_simp

lemma year_checked:
  assumes "0 \<le> y" and "y \<le> 399"
  shows "year_of_era (year_start y) = y" "year_of_era (year_end y) = y"
    "year_end y - year_start y \<le> 365" "year_start y \<le> year_end y"
    "0 \<le> year_start y" "year_end y \<le> 146096"
  using years_checked assms by (simp_all add: list_all_iff)

lemma sub_div_mono:
  fixes d d' :: int
  assumes "d \<le> d'"
  shows "d - d div 1460 \<le> d' - d' div 1460"
proof -
  have "d' div 1460 - d div 1460 \<le> d' - d"
  proof -
    have a: "d' = 1460 * (d' div 1460) + d' mod 1460" and b: "d = 1460 * (d div 1460) + d mod 1460"
      by simp_all
    have r: "0 \<le> d' mod 1460" "d' mod 1460 < 1460" "0 \<le> d mod 1460" "d mod 1460 < 1460"
      by simp_all
    have q: "d div 1460 \<le> d' div 1460" using assms by (rule zdiv_mono1) simp
    show ?thesis using a b r q assms by linarith
  qed
  then show ?thesis by linarith
qed

lemma year_of_era_mono:
  assumes "0 \<le> d" and "d \<le> d'" and "d' \<le> 146096"
  shows "year_of_era d \<le> year_of_era d'"
proof -
  have n: "d - d div 1460 + d div 36524 - d div 146096
        \<le> d' - d' div 1460 + d' div 36524 - d' div 146096"
  proof (cases "d' = 146096")
    case True
    show ?thesis
    proof (cases "d = 146096")
      case True
      with \<open>d' = 146096\<close> show ?thesis by simp
    next
      case False
      with assms True have le: "d \<le> 146095" by simp
      have "d - d div 1460 \<le> (146095::int) - 146095 div 1460" using le by (rule sub_div_mono)
      moreover have "d div 36524 \<le> (146095::int) div 36524" using le by (rule zdiv_mono1) simp
      moreover have "0 \<le> d div 146096" using assms(1) by (simp add: pos_imp_zdiv_nonneg_iff)
      ultimately show ?thesis using True by simp
    qed
  next
    case False
    with assms have "d' < 146096" "d < 146096" by simp_all
    with assms(1,2) have z: "d div 146096 = 0" "d' div 146096 = 0" by simp_all
    have "d - d div 1460 \<le> d' - d' div 1460" using assms(2) by (rule sub_div_mono)
    moreover have "d div 36524 \<le> d' div 36524" using assms(2) by (rule zdiv_mono1) simp
    ultimately show ?thesis using z by simp
  qed
  show ?thesis unfolding year_of_era_def using n by (rule zdiv_mono1) simp
qed

lemma year_cover:
  assumes "0 \<le> d"
  shows "d \<le> year_end (int k) \<Longrightarrow> k \<le> 399 \<Longrightarrow>
         \<exists>y. 0 \<le> y \<and> y \<le> 399 \<and> year_start y \<le> d \<and> d \<le> year_end y"
proof (induction k)
  case 0
  have "year_start 0 = 0" by (simp add: year_start_def)
  with 0 assms show ?case by (intro exI [of _ 0]) simp
next
  case (Suc k)
  show ?case
  proof (cases "d \<le> year_end (int k)")
    case True
    with Suc show ?thesis by simp
  next
    case False
    have "k \<noteq> 399" using Suc.prems by simp
    then have "year_end (int k) = year_start (int k + 1) - 1"
      using Suc.prems by (simp add: year_end_def)
    with False have "year_start (int (Suc k)) \<le> d" by (simp add: add.commute)
    with Suc.prems show ?thesis by (intro exI [of _ "int (Suc k)"]) simp
  qed
qed

lemma year_of_era_bounds:
  assumes "0 \<le> d" and "d \<le> 146096"
  shows "0 \<le> year_of_era d \<and> year_of_era d \<le> 399 \<and>
         0 \<le> d - year_start (year_of_era d) \<and> d - year_start (year_of_era d) \<le> 365"
proof -
  have "year_end (int 399) = 146096" by (simp add: year_end_def)
  with assms year_cover [of d 399] obtain y where
    y: "0 \<le> y" "y \<le> 399" "year_start y \<le> d" "d \<le> year_end y"
    by auto
  have s0: "0 \<le> year_start y" and e: "year_end y \<le> 146096"
    by (rule year_checked [OF y(1,2)])+
  have "year_of_era (year_start y) \<le> year_of_era d"
    using s0 y(3) assms(2) by (rule year_of_era_mono)
  moreover have "year_of_era d \<le> year_of_era (year_end y)"
    using assms(1) y(4) e by (rule year_of_era_mono)
  ultimately have "year_of_era d = y"
    using year_checked(1,2) [OF y(1,2)] by simp
  with y year_checked(3) [OF y(1,2)] show ?thesis by simp
qed


lemma month_bounds:
  fixes doy :: int
  assumes "0 \<le> doy" and "doy \<le> 365"
  shows "0 \<le> (5 * doy + 2) div 153" "(5 * doy + 2) div 153 \<le> 11"
    "1 \<le> doy - (153 * ((5 * doy + 2) div 153) + 2) div 5 + 1"
    "doy - (153 * ((5 * doy + 2) div 153) + 2) div 5 + 1 \<le> 31"
proof -
  let ?mp = "(5 * doy + 2) div 153"
  have a: "5 * doy + 2 = 153 * ?mp + (5 * doy + 2) mod 153" by simp
  have r: "0 \<le> (5 * doy + 2) mod 153" "(5 * doy + 2) mod 153 < 153" by simp_all
  show "0 \<le> ?mp" using assms by (simp add: pos_imp_zdiv_nonneg_iff)
  show "?mp \<le> 11" using a r assms by linarith
  let ?s = "(153 * ?mp + 2) div 5"
  have b: "153 * ?mp + 2 = 5 * ?s + (153 * ?mp + 2) mod 5" by simp
  have q: "0 \<le> (153 * ?mp + 2) mod 5" "(153 * ?mp + 2) mod 5 < 5" by simp_all
  show "1 \<le> doy - ?s + 1" using a r b q by linarith
  show "doy - ?s + 1 \<le> 31" using a r b q by linarith
qed

lemma civil_from_days_parts:
  obtains era doe yoe doy mp where
    "z0 + 719468 = era * 146097 + doe" "0 \<le> doe" "doe \<le> 146096"
    "yoe = year_of_era doe" "doy = doe - year_start yoe" "mp = (5 * doy + 2) div 153"
    "civil_from_days z0 =
       (yoe + era * 400 + (if (if mp < 10 then mp + 3 else mp - 9) \<le> 2 then 1 else 0),
        (if mp < 10 then mp + 3 else mp - 9),
        doy - (153 * mp + 2) div 5 + 1)"
proof -
  define era where "era = (z0 + 719468) div 146097"
  define doe where "doe = (z0 + 719468) - era * 146097"
  define yoe where "yoe = year_of_era doe"
  define doy where "doy = doe - year_start yoe"
  define mp where "mp = (5 * doy + 2) div 153"
  have "doe = (z0 + 719468) mod 146097"
    unfolding doe_def era_def by (simp add: minus_div_mult_eq_mod)
  then have "0 \<le> doe" "doe \<le> 146096" by simp_all
  moreover have "z0 + 719468 = era * 146097 + doe" by (simp add: doe_def)
  moreover have "civil_from_days z0 =
       (yoe + era * 400 + (if (if mp < 10 then mp + 3 else mp - 9) \<le> 2 then 1 else 0),
        (if mp < 10 then mp + 3 else mp - 9),
        doy - (153 * mp + 2) div 5 + 1)"
    unfolding civil_from_days_def Let_def mp_def doy_def yoe_def doe_def era_def
      year_of_era_def year_start_def by (rule refl)
  ultimately show thesis using that yoe_def doy_def mp_def by blast
qed

lemma civil_from_days_valid:
  assumes "civil_from_days z = (y, m, d)"
  shows "1 \<le> m \<and> m \<le> 12 \<and> 1 \<le> d \<and> d \<le> 31 \<and> days_from_civil y m d = z"
proof -
  obtain era doe yoe doy mp where p:
    "z + 719468 = era * 146097 + doe" "0 \<le> doe" "doe \<le> 146096"
    "yoe = year_of_era doe" "doy = doe - year_start yoe" "mp = (5 * doy + 2) div 153"
    "civil_from_days z =
       (yoe + era * 400 + (if (if mp < 10 then mp + 3 else mp - 9) \<le> 2 then 1 else 0),
        (if mp < 10 then mp + 3 else mp - 9),
        doy - (153 * mp + 2) div 5 + 1)"
    by (rule civil_from_days_parts)
  from year_of_era_bounds [OF p(2,3)] p(4,5)
  have yb: "0 \<le> yoe" "yoe \<le> 399" "0 \<le> doy" "doy \<le> 365" by simp_all
  from month_bounds [OF yb(3,4)] p(6)
  have mb: "0 \<le> mp" "mp \<le> 11" "1 \<le> doy - (153 * mp + 2) div 5 + 1"
    "doy - (153 * mp + 2) div 5 + 1 \<le> 31" by simp_all
  from assms p(7) have m: "m = (if mp < 10 then mp + 3 else mp - 9)"
    and d: "d = doy - (153 * mp + 2) div 5 + 1"
    and y: "y = yoe + era * 400 + (if m \<le> 2 then 1 else 0)"
    by auto
  have mr: "1 \<le> m" "m \<le> 12" using m mb by (auto split: if_splits)
  have mp': "(if m > 2 then m - 3 else m + 9) = mp" using m mb by (auto split: if_splits)
  have y': "(if m \<le> 2 then y - 1 else y) = yoe + era * 400" using y by simp
  have era': "(yoe + era * 400) div 400 = era" using yb by simp
  have "days_from_civil y m d = z"
    unfolding days_from_civil_def Let_def y' mp' era'
    using p(1,5) d by (simp add: year_start_def)
  with mr mb d show ?thesis by simp
qed

lemma hour_parts:
  fixes t :: int
  shows "t div 86400000 = (t div 3600000) div 24"
    and "(t mod 86400000) div 3600000 = (t div 3600000) mod 24"
proof -
  have e: "(86400000::int) = 3600000 * 24" by simp
  show "t div 86400000 = (t div 3600000) div 24"
    unfolding e by (simp add: zdiv_zmult2_eq)
  have "t mod (3600000 * 24) = 3600000 * (t div 3600000 mod 24) + t mod 3600000"
    by (rule zmod_zmult2_eq) simp
  then show "(t mod 86400000) div 3600000 = (t div 3600000) mod 24"
    unfolding e by simp
qed

text \<open>
  The key of a timestamp: a month from 1 to 12, a day from 1 to 31, an hour from 0 to 23;
  the date is the one whose day number is the day of the timestamp, and the hour is the
  hour of that day.
\<close>

lemma hour_id_of_parts:
  assumes "hour_id_of t = (y, m, d, h)"
  shows "1 \<le> m \<and> m \<le> 12 \<and> 1 \<le> d \<and> d \<le> 31 \<and> 0 \<le> h \<and> h \<le> 23 \<and>
         days_from_civil y m d = t div 86400000 \<and> h = (t div 3600000) mod 24"
proof -
  from assms have c: "civil_from_days (t div 86400000) = (y, m, d)"
    and h: "h = (t mod 86400000) div 3600000"
    by (auto simp: hour_id_of_def split: prod.splits)
  have "h = (t div 3600000) mod 24"
    unfolding h by (rule hour_parts(2))
  moreover from this have "0 \<le> h" "h \<le> 23" by simp_all
  ultimately show ?thesis using civil_from_days_valid [OF c] by simp
qed

text \<open>Two timestamps have the same key exactly when they lie in the same clock hour.\<close>

lemma hour_id_of_eq_iff:
  "hour_id_of t1 = hour_id_of t2 \<longleftrightarrow> t1 div 3600000 = t2 div 3600000"
proof
  assume e: "t1 div 3600000 = t2 div 3600000"
  have "t1 div 86400000 = t2 div 86400000"
    unfolding hour_parts(1) [of t1] hour_parts(1) [of t2] e by (rule refl)
  moreover have "(t1 mod 86400000) div 3600000 = (t2 mod 86400000) div 3600000"
    unfolding hour_parts(2) [of t1] hour_parts(2) [of t2] e by (rule refl)
  ultimately show "hour_id_of t1 = hour_id_of t2"
    by (simp add: hour_id_of_def)
next
  assume e: "hour_id_of t1 = hour_id_of t2"
  obtain y m d h where k: "hour_id_of t1 = (y, m, d, h)"
    by (cases "hour_id_of t1")
  from hour_id_of_parts [OF k] hour_id_of_parts [OF k [unfolded e]]
  have "t1 div 86400000 = t2 div 86400000" "(t1 div 3600000) mod 24 = (t2 div 3600000) mod 24"
    by simp_all
  then have "(t1 div 3600000) div 24 = (t2 div 3600000) div 24"
    by (simp add: hour_parts(1))
  with \<open>(t1 div 3600000) mod 24 = (t2 div 3600000) mod 24\<close>
  show "t1 div 3600000 = t2 div 3600000"
    by (metis div_mult_mod_eq)
qed

lemma same_hour_filter:
  "filter (\<lambda>s. P s \<and> hour_id_of (timestamp s) = hour_id_of t) ss =
   filter (\<lambda>s. P s \<and> timestamp s div 3600000 = t div 3600000) ss"
  by (simp add: hour_id_of_eq_iff)

text \<open>
  C3. The hourly trend scores a label 1 for \<open>Low\<close>, 2 for \<open>Moderate\<close>, 3 for \<open>High\<close>.
  The bucket of a sample is the (year, month, day, hour) of its timestamp in UTC: a valid
  month, day and hour, the date being the one of the sample's day and the hour the hour of
  that day, so that two samples share a bucket exactly when they lie in the same clock
  hour. There is one row per clock hour that holds a sample of the trailing 24 hours, in
  ascending order of the key; the congestion of a row is the mean score of the samples of
  that clock hour, as the double that \<open>$avg\<close> returns; and the label of a row is \<open>Low\<close>
  below 1.5, \<open>Moderate\<close> below 2.5, \<open>High\<close> otherwise. Three samples of one clock hour
  labelled \<open>Low\<close>, \<open>Moderate\<close>, \<open>High\<close> average to 2 and yield \<open>Moderate\<close>.
\<close>

theorem hourly_trend:
  "congestion_score (JStr ''Low'') = 1 \<and>
   congestion_score (JStr ''Moderate'') = 2 \<and>
   congestion_score (JStr ''High'') = 3 \<and>
   (case hour_id_of t of
      (y, m, d, h) \<Rightarrow>
        1 \<le> m \<and> m \<le> 12 \<and> 1 \<le> d \<and> d \<le> 31 \<and> 0 \<le> h \<and> h \<le> 23 \<and>
        days_from_civil y m d = t div 86400000 \<and> h = (t div 3600000) mod 24) \<and>
   (hour_id_of t1 = hour_id_of t2) = (t1 div 3600000 = t2 div 3600000) \<and>
   sorted (map hid (hourlyTraffic now ss)) \<and>
   distinct (map hid (hourlyTraffic now ss)) \<and>
   set (map hid (hourlyTraffic now ss)) =
     (\<lambda>s. hour_id_of (timestamp s)) ` {s \<in> set ss. now - 86400000 \<le> timestamp s} \<and>
   (\<forall>h \<in> set (hourlyTraffic now ss).
      \<exists>s0 \<in> set ss. now - 86400000 \<le> timestamp s0 \<and> hid h = hour_id_of (timestamp s0) \<and>
        (let xs = map (\<lambda>s. congestion_score (sample.congestionLevel s))
                    (filter (\<lambda>s. now - 86400000 \<le> timestamp s \<and>
                                timestamp s div 3600000 = timestamp s0 div 3600000) ss)
         in averageCongestion h = Some (round_ratio (round_int (sum_list xs)) (length xs)) \<and>
            \<bar>round_ratio (round_int (sum_list xs)) (length xs) - mean xs\<bar>
              \<le> \<bar>mean xs\<bar> / 2 ^ 51)) \<and>
   map trend.congestionLevel (trafficTrend now ss) =
     map (\<lambda>h. case averageCongestion h of
                 None \<Rightarrow> ''Low''
               | Some a \<Rightarrow>
                   if a < 3 / 2 then ''Low'' else if a < 5 / 2 then ''Moderate'' else ''High'')
         (hourlyTraffic now ss) \<and>
   (now - 86400000 \<le> timestamp s1 \<and> now - 86400000 \<le> timestamp s2 \<and>
    now - 86400000 \<le> timestamp s3 \<and>
    timestamp s2 div 3600000 = timestamp s1 div 3600000 \<and>
    timestamp s3 div 3600000 = timestamp s1 div 3600000 \<and>
    sample.congestionLevel s1 = JStr ''Low'' \<and>
    sample.congestionLevel s2 = JStr ''Moderate'' \<and>
    sample.congestionLevel s3 = JStr ''High'' \<longrightarrow>
    map averageCongestion (hourlyTraffic now [s1, s2, s3]) = [Some 2] \<and>
    map trend.congestionLevel (trafficTrend now [s1, s2, s3]) = [''Moderate''])"
proof (intro conjI ballI impI)
  let ?w = "filter (last24h now) ss"
  show "congestion_score (JStr ''Low'') = 1" "congestion_score (JStr ''Moderate'') = 2"
    "congestion_score (JStr ''High'') = 3"
    by (simp_all add: congestion_score_def)
  show "case hour_id_of t of
      (y, m, d, h) \<Rightarrow>
        1 \<le> m \<and> m \<le> 12 \<and> 1 \<le> d \<and> d \<le> 31 \<and> 0 \<le> h \<and> h \<le> 23 \<and>
        days_from_civil y m d = t div 86400000 \<and> h = (t div 3600000) mod 24"
    using hour_id_of_parts [of t] by (cases "hour_id_of t") simp
  show "(hour_id_of t1 = hour_id_of t2) = (t1 div 3600000 = t2 div 3600000)"
    by (rule hour_id_of_eq_iff)
  show "sorted (map hid (hourlyTraffic now ss))"
    by (simp add: hourlyTraffic_def)
  have d: "distinct (map fst (group_by_hour ?w))"
    unfolding group_by_hour_def by (rule fold_group_distinct) simp
  show "distinct (map hid (hourlyTraffic now ss))"
    unfolding hourlyTraffic_def distinct_map_sort_key hid_rows by (rule d)
  have "set (map hid (hourlyTraffic now ss)) = fst ` set (group_by_hour ?w)"
    unfolding hourlyTraffic_def by (simp add: image_image split_def)
  also have "\<dots> = (\<lambda>s. hour_id_of (timestamp s)) ` set ?w"
    unfolding group_by_hour_def fold_group_keys by simp
  finally show "set (map hid (hourlyTraffic now ss)) =
     (\<lambda>s. hour_id_of (timestamp s)) ` {s \<in> set ss. now - 86400000 \<le> timestamp s}"
    by (simp add: last24h_eq)
next
  fix h
  assume "h \<in> set (hourlyTraffic now ss)"
  then obtain k a where ka: "(k, a) \<in> set (group_by_hour (filter (last24h now) ss))"
    and h: "h = \<lparr>hid = k, averageTrafficVolume = avg_result (vol_acc a),
                  averageCongestion = avg_result (cong_acc a)\<rparr>"
    by (auto simp: hourlyTraffic_def)
  let ?b = "filter (\<lambda>s. hour_id_of (timestamp s) = k) (filter (last24h now) ss)"
  from group_by_hour_row [OF ka]
  have ne: "?b \<noteq> []"
    and av: "avg_result (cong_acc a) =
           Some (round_ratio
                   (round_int (sum_list (map (\<lambda>s. congestion_score (sample.congestionLevel s)) ?b)))
                   (length ?b))"
    by simp_all
  from ne have "last ?b \<in> set ?b"
    by (rule last_in_set)
  then obtain s0 where "s0 \<in> set ?b" ..
  then have s0: "s0 \<in> set ss" "now - 86400000 \<le> timestamp s0" "k = hour_id_of (timestamp s0)"
    by (auto simp: last24h_eq)
  have f: "?b = filter (\<lambda>s. now - 86400000 \<le> timestamp s \<and>
                            timestamp s div 3600000 = timestamp s0 div 3600000) ss"
    by (simp add: s0(3) last24h_eq hour_id_of_eq_iff conj_commute)
  show "\<exists>s0 \<in> set ss. now - 86400000 \<le> timestamp s0 \<and> hid h = hour_id_of (timestamp s0) \<and>
        (let xs = map (\<lambda>s. congestion_score (sample.congestionLevel s))
                    (filter (\<lambda>s. now - 86400000 \<le> timestamp s \<and>
                                timestamp s div 3600000 = timestamp s0 div 3600000) ss)
         in averageCongestion h = Some (round_ratio (round_int (sum_list xs)) (length xs)) \<and>
            \<bar>round_ratio (round_int (sum_list xs)) (length xs) - mean xs\<bar>
              \<le> \<bar>mean xs\<bar> / 2 ^ 51)"
  proof (intro bexI [of _ s0] conjI)
    let ?xs = "map (\<lambda>s. congestion_score (sample.congestionLevel s)) ?b"
    from ne have "?xs \<noteq> []" by simp
    then have cl: "\<bar>round_ratio (round_int (sum_list ?xs)) (length ?xs) - mean ?xs\<bar>
              \<le> \<bar>mean ?xs\<bar> / 2 ^ 51"
      by (rule double_mean_close)
    have "averageCongestion h = Some (round_ratio (round_int (sum_list ?xs)) (length ?xs))"
      using av by (simp add: h)
    with cl show "let xs = map (\<lambda>s. congestion_score (sample.congestionLevel s))
                    (filter (\<lambda>s. now - 86400000 \<le> timestamp s \<and>
                                timestamp s div 3600000 = timestamp s0 div 3600000) ss)
         in averageCongestion h = Some (round_ratio (round_int (sum_list xs)) (length xs)) \<and>
            \<bar>round_ratio (round_int (sum_list xs)) (length xs) - mean xs\<bar>
              \<le> \<bar>mean xs\<bar> / 2 ^ 51"
      unfolding f Let_def by simp
  qed (use s0 in \<open>simp_all add: h\<close>)
next
  show "map trend.congestionLevel (trafficTrend now ss) =
     map (\<lambda>h. case averageCongestion h of
                 None \<Rightarrow> ''Low''
               | Some a \<Rightarrow>
                   if a < 3 / 2 then ''Low'' else if a < 5 / 2 then ''Moderate'' else ''High'')
         (hourlyTraffic now ss)"
    by (simp add: trafficTrend_def trend_label_def to_number_def split: option.splits)
next
  assume a: "now - 86400000 \<le> timestamp s1 \<and> now - 86400000 \<le> timestamp s2 \<and>
    now - 86400000 \<le> timestamp s3 \<and>
    timestamp s2 div 3600000 = timestamp s1 div 3600000 \<and>
    timestamp s3 div 3600000 = timestamp s1 div 3600000 \<and>
    sample.congestionLevel s1 = JStr ''Low'' \<and>
    sample.congestionLevel s2 = JStr ''Moderate'' \<and>
    sample.congestionLevel s3 = JStr ''High''"
  then have k: "hour_id_of (timestamp s2) = hour_id_of (timestamp s1)"
    "hour_id_of (timestamp s3) = hour_id_of (timestamp s1)"
    by (simp_all add: hour_id_of_eq_iff)
  have r: "round_ratio (round_int 6) (Suc (Suc (Suc 0))) = 2"
    unfolding numeral_3_eq_3 [symmetric] by (simp add: double_eval Let_def)
  from a k have H: "map averageCongestion (hourlyTraffic now [s1, s2, s3]) = [Some 2]"
    by (simp add: hourlyTraffic_def group_by_hour_def last24h_def acc_add_def
        congestion_score_def avg_result_def r)
  then show "map averageCongestion (hourlyTraffic now [s1, s2, s3]) = [Some 2]" .
  have "map trend.congestionLevel (trafficTrend now [s1, s2, s3]) =
        map trend_label (map averageCongestion (hourlyTraffic now [s1, s2, s3]))"
    by (simp add: trafficTrend_def)
  then show "map trend.congestionLevel (trafficTrend now [s1, s2, s3]) = [''Moderate'']"
    unfolding H by (simp add: trend_label_def to_number_def)
qed

text \<open>
  Three samples of 2026-11-03 between 09:00 and 10:00 UTC, and the keys of three
  timestamps: in that hour, in the last hour of 1969, and at the start of 2000-02-29.
\<close>

theorem hourly_trend_witness:
  "map averageCongestion
     (hourlyTraffic 1793700000000
        [sample_at 1793698000000 10 ''Low'', sample_at 1793698100000 11 ''Moderate'',
         sample_at 1793698200000 11 ''High'']) = [Some 2] \<and>
   map trend.congestionLevel
     (trafficTrend 1793700000000
        [sample_at 1793698000000 10 ''Low'', sample_at 1793698100000 11 ''Moderate'',
         sample_at 1793698200000 11 ''High'']) = [''Moderate''] \<and>
   hour_id_of 1793698000000 = (2026, 11, 3, 9) \<and>
   hour_id_of (- 1) = (1969, 12, 31, 23) \<and>
   hour_id_of 951782400000 = (2000, 2, 29, 0)"
proof -
  have h: "1793700000000 - 86400000 \<le> timestamp (sample_at 1793698000000 10 ''Low'') \<and>
    1793700000000 - 86400000 \<le> timestamp (sample_at 1793698100000 11 ''Moderate'') \<and>
    1793700000000 - 86400000 \<le> timestamp (sample_at 1793698200000 11 ''High'') \<and>
    timestamp (sample_at 1793698100000 11 ''Moderate'') div 3600000 =
      timestamp (sample_at 1793698000000 10 ''Low'') div 3600000 \<and>
    timestamp (sample_at 1793698200000 11 ''High'') div 3600000 =
      timestamp (sample_at 1793698000000 10 ''Low'') div 3600000 \<and>
    sample.congestionLevel (sample_at 1793698000000 10 ''Low'') = JStr ''Low'' \<and>
    sample.congestionLevel (sample_at 1793698100000 11 ''Moderate'') = JStr ''Moderate'' \<and>
    sample.congestionLevel (sample_at 1793698200000 11 ''High'') = JStr ''High''"
    by (simp add: sample_at_def)
  have k: "hour_id_of 1793698000000 = (2026, 11, 3, 9)"
    "hour_id_of (- 1) = (1969, 12, 31, 23)"
    "hour_id_of 951782400000 = (2000, 2, 29, 0)"
    by code_simp+
  from hourly_trend [THEN conjunct2, THEN conjunct2, THEN conjunct2, THEN conjunct2,
          THEN conjunct2, THEN conjunct2, THEN conjunct2, THEN conjunct2, THEN conjunct2,
          THEN conjunct2, THEN mp, OF h] k
  show ?thesis by simp
qed

section \<open>Which actions bring a record online\<close>

lemma becomes_online_same [simp]: "\<not> becomes_online c c i"
  by (simp add: becomes_online_def split: option.splits)

lemma set_fields_online:
  assumes "field (JObj (set_fields u d)) ''status'' = JStr ''online''"
    and "field (JObj d) ''status'' \<noteq> JStr ''online''"
  shows "(''status'', JStr ''online'') \<in> set u"
proof -
  let ?vs = "map snd (filter (\<lambda>(k', v). k' = ''status'' \<and> v \<noteq> JUndef) u)"
  from assms have ne: "?vs \<noteq> []" and l: "last ?vs = JStr ''online''"
    unfolding field_set_fields by (auto split: list.splits)
  from ne have "last ?vs \<in> set ?vs" by (rule last_in_set)
  with l show ?thesis by auto
qed

text \<open>Strict mode only drops keys: what it writes to \<open>status\<close> is in the update.\<close>

lemma strict_key_fst: "(k, v) \<in> set (strict_key ps k' v0) \<Longrightarrow> k = k'"
  by (induction ps) (auto split: if_splits)

lemma strict_fields_mem:
  "(k, v) \<in> set (strict_fields ps u) \<Longrightarrow> \<exists>v0. (k, v0) \<in> set u \<and> (k, v) \<in> set (strict_key ps k v0)"
proof (induction u)
  case Nil
  then show ?case by simp
next
  case (Cons a u)
  obtain k' v' where a: "a = (k', v')" by (cases a)
  from Cons.prems consider "(k, v) \<in> set (strict_key ps k' v')" | "(k, v) \<in> set (strict_fields ps u)"
    by (auto simp: a)
  then show ?case
  proof cases
    case 1
    with strict_key_fst [OF 1] show ?thesis by (auto simp: a)
  next
    case 2
    with Cons.IH show ?thesis by auto
  qed
qed

lemma strict_key_status:
  "ps = CameraSchema \<or> ps = SignalSchema \<Longrightarrow> strict_key ps ''status'' v = [(''status'', v)]"
  by (auto simp: CameraSchema_def SignalSchema_def)

lemma strict_fields_status:
  assumes "ps = CameraSchema \<or> ps = SignalSchema"
    and "(''status'', v) \<in> set (strict_fields ps u)"
  shows "(''status'', v) \<in> set u"
  using strict_fields_mem [OF assms(2)] strict_key_status [OF assms(1)] by auto

lemma becomes_online_findByIdAndUpdate:
  assumes "findByIdAndUpdate ps ok c j u = Inr (r, c')" and "becomes_online c c' i"
    and "ps = CameraSchema \<or> ps = SignalSchema"
  shows "(''status'', JStr ''online'') \<in> set u"
proof (cases "map_of c j")
  case None
  with assms(1,2) show ?thesis
    by (simp add: findByIdAndUpdate_def split: if_splits)
next
  case (Some d)
  with assms(1) have c': "c' = AList.update j (set_fields (strict_fields ps u) d) c"
    by (simp add: findByIdAndUpdate_def split: if_splits)
  show ?thesis
  proof (cases "i = j")
    case True
    with assms(2) Some
    have "field (JObj (set_fields (strict_fields ps u) d)) ''status'' = JStr ''online''"
      and "field (JObj d) ''status'' \<noteq> JStr ''online''"
      by (simp_all add: becomes_online_def status_of_def c' update_conv' del: field.simps)
    then have "(''status'', JStr ''online'') \<in> set (strict_fields ps u)"
      by (rule set_fields_online)
    with assms(3) show ?thesis by (rule strict_fields_status)
  next
    case False
    with assms(2) show ?thesis
      by (simp add: becomes_online_def status_of_def c' update_conv' split: option.splits)
  qed
qed

lemma becomes_online_findByIdAndDelete:
  "findByIdAndDelete ok c j = Inr (r, c') \<Longrightarrow> \<not> becomes_online c c' i"
  by (auto simp: findByIdAndDelete_def becomes_online_def status_of_def delete_conv'
      split: if_splits option.splits)

lemma becomes_online_append: "\<not> becomes_online c (c @ [(j, d)]) i"
  by (auto simp: becomes_online_def status_of_def map_add_def split: option.splits)

lemma becomes_online_update:
  assumes "becomes_online c (AList.update j d' c) i" and "map_of c j = Some d"
  shows "field (JObj d') ''status'' = JStr ''online'' \<and> field (JObj d) ''status'' \<noteq> JStr ''online''"
proof (cases "i = j")
  case True
  with assms show ?thesis
    by (simp add: becomes_online_def status_of_def update_conv' del: field.simps)
next
  case False
  with assms(1) show ?thesis
    by (simp add: becomes_online_def status_of_def update_conv' split: option.splits)
qed

lemma signals_put_online:
  "becomes_online (signals st) (signals (snd (snd (signals_put ok st pid b)))) i \<Longrightarrow>
     field b ''status'' = JStr ''online''"
  by (auto simp: signals_put_def Let_def split: if_splits sum.splits prod.splits
      dest!: becomes_online_findByIdAndUpdate simp del: set_fields.simps)

lemma signals_put_cameras:
  "cameras (snd (snd (signals_put ok st pid b))) = cameras st"
  by (auto simp: signals_put_def Let_def split: if_splits sum.splits prod.splits
      simp del: set_fields.simps)


lemma last_show_nat: "last (show_nat n) = digit n"
  by (subst show_nat.simps) simp

lemma digit_not_s: "digit n \<noteq> CHR ''s''"
proof -
  have "n mod 10 < length ''0123456789''" by simp
  then have "''0123456789'' ! (n mod 10) \<in> set ''0123456789''" by (rule nth_mem)
  then show ?thesis unfolding digit_def by auto
qed

lemma show_nat_not_status: "show_nat n \<noteq> ''status''"
proof
  assume "show_nat n = ''status''"
  then have "last (show_nat n) = last ''status''" by simp
  then show False by (simp add: last_show_nat digit_not_s)
qed

lemma set_arg_online:
  "set_arg v = Inr u \<Longrightarrow> (''status'', JStr ''online'') \<in> set u \<Longrightarrow> sets_online v"
proof (cases v)
  case (JArr xs)
  assume "set_arg v = Inr u" and m: "(''status'', JStr ''online'') \<in> set u"
  with JArr have "u = zip (map show_nat [0..<length xs]) xs" by simp
  with m have "''status'' \<in> set (map show_nat [0..<length xs])"
    by (auto dest: set_zip_leftD)
  then obtain n where "show_nat n = ''status''" by auto
  with show_nat_not_status show ?thesis by blast
qed auto

lemma random_element_mem:
  assumes "draw u" and "xs \<noteq> []"
  shows "random_element xs u \<in> set xs"
proof -
  have "u * of_nat (length xs) < of_nat (length xs)"
    using assms by (simp add: draw_def)
  then have "\<lfloor>u * of_nat (length xs)\<rfloor> < int (length xs)"
    by (simp add: floor_less_iff)
  moreover have "0 \<le> \<lfloor>u * of_nat (length xs)\<rfloor>"
    using assms by (simp add: draw_def)
  ultimately have "nat \<lfloor>u * of_nat (length xs)\<rfloor> < length xs"
    by (simp add: nat_less_iff)
  then show ?thesis unfolding random_element_def by (rule nth_mem)
qed

lemma analytics_keeps_signals:
  "processTrafficAnalytics ao st m = (st2, ems2) \<Longrightarrow> signals st2 = signals st"
  by (auto simp: processTrafficAnalytics_def Let_def split: if_splits list.splits option.splits)

lemma authenticate_online:
  "cameras (fst (authenticate valid st sid)) = cameras st"
  "signals (fst (authenticate valid st sid)) = signals st"
  by (simp_all add: authenticate_def join_room_def)

lemma cameraControl_online:
  "signals (fst (cameraControl ok st sid data)) = signals st"
  "becomes_online (cameras st) (cameras (fst (cameraControl ok st sid data))) i \<Longrightarrow>
     sets_online (field data ''settings'')"
  by (auto simp: cameraControl_def Let_def split: if_splits sum.splits prod.splits
      dest: becomes_online_findByIdAndUpdate set_arg_online)

lemma signalControl_online:
  "cameras (fst (signalControl ok st sid data)) = cameras st"
  "becomes_online (signals st) (signals (fst (signalControl ok st sid data))) i \<Longrightarrow>
     sets_online (field data ''settings'')"
  by (auto simp: signalControl_def Let_def split: if_splits sum.splits prod.splits
      dest: becomes_online_findByIdAndUpdate set_arg_online)

lemma deviceConnect_online:
  "field data ''apiKey'' \<noteq> env_value (DEVICE_API_KEY ev) \<Longrightarrow>
     fst (deviceConnect ev ok now st sid data) = st"
  by (simp add: deviceConnect_def Let_def)

lemma deviceData_online:
  "\<not> becomes_online (cameras st) (cameras (fst (deviceData ok now ao st sid data))) i"
  "\<not> becomes_online (signals st) (signals (fst (deviceData ok now ao st sid data))) i"
proof -
  let ?uc = "[(''lastSeen'', JNum now), (''metrics'', field data ''metrics'')]"
  let ?us = "[(''lastSeen'', JNum now),
              (''currentPhase'', field (field data ''metrics'') ''currentPhase''),
              (''remainingTime'', field (field data ''metrics'') ''remainingTime''),
              (''metrics'', field data ''metrics'')]"
  have nc: "(''status'', JStr ''online'') \<notin> set ?uc" and ns: "(''status'', JStr ''online'') \<notin> set ?us"
    by simp_all
  have uc: "\<And>r c'. findByIdAndUpdate CameraSchema ok (cameras st) (field data ''id'') ?uc = Inr (r, c') \<Longrightarrow>
                \<not> becomes_online (cameras st) c' i"
    using nc becomes_online_findByIdAndUpdate by blast
  have us: "\<And>r c'. findByIdAndUpdate SignalSchema ok (signals st) (field data ''id'') ?us = Inr (r, c') \<Longrightarrow>
                \<not> becomes_online (signals st) c' i"
    using ns becomes_online_findByIdAndUpdate by blast
  have kc: "\<And>m s. cameras (fst (processTrafficAnalytics ao s m)) = cameras s"
    by (metis analytics_keeps_cameras prod.collapse)
  have ks: "\<And>m s. signals (fst (processTrafficAnalytics ao s m)) = signals s"
    by (metis analytics_keeps_signals prod.collapse)
  show "\<not> becomes_online (cameras st) (cameras (fst (deviceData ok now ao st sid data))) i"
    using uc by (auto simp: deviceData_def Let_def kc split_def split: sum.splits
        simp del: set_fields.simps)
  show "\<not> becomes_online (signals st) (signals (fst (deviceData ok now ao st sid data))) i"
    using us by (auto simp: deviceData_def Let_def ks split_def split: sum.splits
        simp del: set_fields.simps)
qed

lemma field_assign_if:
  "field (JObj (assign_if k v d)) k' =
     (if k' = k \<and> truthy v then v else field (JObj d) k')"
  by (simp add: assign_if_def field_update del: field.simps)

lemma rest_writers_cameras_unchanged:
  "cameras (snd (snd (signals_post ok newid now st b))) = cameras st"
  "cameras (snd (snd (signals_put ok st pid b))) = cameras st"
  "cameras (snd (snd (signals_delete ok st pid))) = cameras st"
  "cameras (snd (snd (signals_put_settings ok st pid b))) = cameras st"
  "cameras (snd (snd (signals_control ok ok_save st pid b))) = cameras st"
  "cameras (snd (snd (app_signals_post ok newid now st b))) = cameras st"
  "cameras (snd (snd (app_signals_put ok ok_save now st pid b))) = cameras st"
  "cameras (snd (snd (app_signals_delete ok st pid))) = cameras st"
  by (simp_all add: signals_post_def signals_put_def signals_delete_def signals_put_settings_def
      signals_control_def app_signals_post_def app_signals_put_def app_signals_delete_def
      Let_def split: sum.splits prod.splits option.splits del: set_fields.simps)

lemma rest_writers_signals_unchanged:
  "signals (snd (snd (cameras_post ok newid now st b))) = signals st"
  "signals (snd (snd (cameras_put ok st pid b))) = signals st"
  "signals (snd (snd (cameras_delete ok st pid))) = signals st"
  "signals (snd (snd (cameras_put_settings ok st pid b))) = signals st"
  "signals (snd (snd (app_cameras_post ok newid now st b))) = signals st"
  "signals (snd (snd (app_cameras_put ok ok_save now st pid b))) = signals st"
  "signals (snd (snd (app_cameras_delete ok st pid))) = signals st"
  by (simp_all add: cameras_post_def cameras_put_def cameras_delete_def cameras_put_settings_def
      app_cameras_post_def app_cameras_put_def app_cameras_delete_def
      Let_def split: sum.splits prod.splits option.splits del: set_fields.simps)

lemma post_online:
  "\<not> becomes_online (signals st) (signals (snd (snd (signals_post ok newid now st b)))) i"
  "\<not> becomes_online (cameras st) (cameras (snd (snd (cameras_post ok newid now st b)))) i"
  "\<not> becomes_online (signals st) (signals (snd (snd (app_signals_post ok newid now st b)))) i"
  "\<not> becomes_online (cameras st) (cameras (snd (snd (app_cameras_post ok newid now st b)))) i"
  by (simp_all add: signals_post_def cameras_post_def app_signals_post_def app_cameras_post_def
      Let_def becomes_online_append del: set_fields.simps)

lemma delete_online:
  "\<not> becomes_online (signals st) (signals (snd (snd (signals_delete ok st pid)))) i"
  "\<not> becomes_online (cameras st) (cameras (snd (snd (cameras_delete ok st pid)))) i"
  "\<not> becomes_online (signals st) (signals (snd (snd (app_signals_delete ok st pid)))) i"
  "\<not> becomes_online (cameras st) (cameras (snd (snd (app_cameras_delete ok st pid)))) i"
  by (auto simp: signals_delete_def cameras_delete_def app_signals_delete_def
      app_cameras_delete_def split: sum.splits prod.splits if_splits
      dest: becomes_online_findByIdAndDelete)

lemma put_settings_online:
  "\<not> becomes_online (signals st) (signals (snd (snd (signals_put_settings ok st pid b)))) i"
  "\<not> becomes_online (cameras st) (cameras (snd (snd (cameras_put_settings ok st pid b)))) i"
  by (auto simp: signals_put_settings_def cameras_put_settings_def Let_def
      split: sum.splits prod.splits if_splits
      dest!: becomes_online_findByIdAndUpdate simp del: set_fields.simps)

lemma cameras_put_online:
  "becomes_online (cameras st) (cameras (snd (snd (cameras_put ok st pid b)))) i \<Longrightarrow>
     field b ''status'' = JStr ''online''"
  by (auto simp: cameras_put_def Let_def split: if_splits sum.splits prod.splits
      dest!: becomes_online_findByIdAndUpdate simp del: set_fields.simps)

lemma signals_control_online:
  "\<not> becomes_online (signals st) (signals (snd (snd (signals_control ok ok_save st pid b)))) i"
  by (auto simp: signals_control_def Let_def field_update field_assign_if
      split: option.splits if_splits dest!: becomes_online_update simp del: field.simps)

lemma app_put_online:
  "becomes_online (cameras st) (cameras (snd (snd (app_cameras_put ok ok_save now st pid b)))) i \<Longrightarrow>
     field b ''status'' = JStr ''online''"
  "becomes_online (signals st) (signals (snd (snd (app_signals_put ok ok_save now st pid b)))) i \<Longrightarrow>
     field b ''status'' = JStr ''online''"
  by (auto simp: app_cameras_put_def app_signals_put_def Let_def field_update field_assign_if
      split: option.splits if_splits dest!: becomes_online_update simp del: field.simps)

lemma simulate_unchanged:
  "signals (fst (simulate_camera ok ok_save now u1 u2 u3 st sid)) = signals st"
  "cameras (fst (simulate_signal ok ok_save now u1 u2 u3 u4 st sid)) = cameras st"
  by (simp_all add: simulate_camera_def simulate_signal_def Let_def split: prod.splits)


lemma simulate_camera_online:
  assumes "distinct (map fst (cameras st))"
    and "becomes_online (cameras st) (cameras (fst (simulate_camera ok ok_save now u1 u2 u3 st sid))) i"
  shows "u2 < 1 / 10"
proof (rule ccontr)
  assume n: "\<not> u2 < 1 / 10"
  from assms(2) have r: "draw u1" "cameras st \<noteq> []" "ok" "ok_save"
    by (auto simp: simulate_camera_def Let_def split: if_splits prod.splits)
  obtain j d where jd: "random_element (cameras st) u1 = (j, d)"
    by (cases "random_element (cameras st) u1")
  with random_element_mem [OF r(1,2)] have "(j, d) \<in> set (cameras st)" by simp
  with assms(1) have m: "map_of (cameras st) j = Some d" by simp
  from assms(2) n r jd
  have "becomes_online (cameras st)
          (AList.update j (AList.update ''lastUpdate'' (JNum now) d) (cameras st)) i"
    by (auto simp: simulate_camera_def Let_def split: if_splits)
  from becomes_online_update [OF this m] show False
    by (simp add: field_update del: field.simps)
qed

lemma simulate_signal_online:
  assumes "distinct (map fst (signals st))"
  shows "\<not> becomes_online (signals st)
           (signals (fst (simulate_signal ok ok_save now u1 u2 u3 u4 st sid))) i"
proof
  let ?on = "filter (\<lambda>(i, d). field (JObj d) ''status'' = JStr ''online'') (signals st)"
  assume b: "becomes_online (signals st)
           (signals (fst (simulate_signal ok ok_save now u1 u2 u3 u4 st sid))) i"
  then have r: "draw u1" "?on \<noteq> []" "ok" "ok_save"
    by (auto simp: simulate_signal_def Let_def split: if_splits prod.splits)
  obtain j d where jd: "random_element ?on u1 = (j, d)"
    by (cases "random_element ?on u1")
  with random_element_mem [OF r(1,2)] have "(j, d) \<in> set (signals st)" by auto
  with assms have m: "map_of (signals st) j = Some d" by simp
  from b r jd obtain d' where
    u: "becomes_online (signals st) (AList.update j d' (signals st)) i"
    and s: "field (JObj d') ''status'' = field (JObj d) ''status''"
    by (auto simp: simulate_signal_def Let_def field_update split: if_splits
        simp del: field.simps)
  from becomes_online_update [OF u m] s show False
    by simp
qed

text \<open>
  C7, as stated, fails: a tick of the simulator's camera timer that draws a new status
  brings the offline camera \<open>c1\<close> online, with no device connect and no operator update.
\<close>

theorem simulator_sets_online_counterexample:
  "becomes_online (cameras example_state)
     (cameras (step example_env (SimulateCamera 7 True True 2000 0 (1 / 20) 0) example_state))
     (JStr ''c1'')"
  by (simp add: becomes_online_def status_of_def simulate_camera_def draw_def
      random_element_def example_state_def Let_def)

text \<open>
  C7, amended. In a store whose ids are unique, the status of an existing record that was
  not online becomes online only by one of these actions: a \<open>deviceConnect\<close> with the
  valid secret; an operator's update that carries the status \<open>online\<close> (a REST
  \<open>PUT /:id\<close> of either server, or a \<open>cameraControl\<close> or \<open>signalControl\<close> event whose
  settings carry it); or a tick of the simulator's camera timer that draws a new status.
  No other handler does: not \<open>deviceData\<close>, a settings update, the manual signal
  control, a create, a delete, or the simulator's signal tick.
\<close>

theorem online_only_by_cause:
  assumes "distinct (map fst (cameras st))" and "distinct (map fst (signals st))"
    and "becomes_online (cameras st) (cameras (step ev a st)) i \<or>
         becomes_online (signals st) (signals (step ev a st)) i"
  shows "online_cause ev a"
proof (cases a)
  case (Authenticate sid valid)
  with assms(3) show ?thesis by (simp add: authenticate_online)
next
  case (CameraControl sid ok data)
  with assms(3) show ?thesis by (auto simp: cameraControl_online)
next
  case (SignalControl sid ok data)
  with assms(3) show ?thesis by (auto simp: signalControl_online)
next
  case (DeviceConnect sid ok now data)
  show ?thesis
  proof (rule ccontr)
    assume "\<not> online_cause ev a"
    then have "fst (deviceConnect ev ok now st sid data) = st"
      by (simp add: DeviceConnect deviceConnect_online)
    with assms(3) show False by (simp add: DeviceConnect)
  qed
next
  case (DeviceData sid ok now ao data)
  with assms(3) show ?thesis by (simp add: deviceData_online)
next
  case (SignalsPost ok newid now b)
  with assms(3) show ?thesis by (simp add: post_online rest_writers_cameras_unchanged)
next
  case (SignalsPut ok pid b)
  with assms(3) show ?thesis by (auto simp: rest_writers_cameras_unchanged dest: signals_put_online)
next
  case (SignalsDelete ok pid)
  with assms(3) show ?thesis by (simp add: delete_online rest_writers_cameras_unchanged)
next
  case (SignalsPutSettings ok pid b)
  with assms(3) show ?thesis by (simp add: put_settings_online rest_writers_cameras_unchanged)
next
  case (SignalsControl ok ok_save pid b)
  with assms(3) show ?thesis by (simp add: signals_control_online rest_writers_cameras_unchanged)
next
  case (CamerasPost ok newid now b)
  with assms(3) show ?thesis by (simp add: post_online rest_writers_signals_unchanged)
next
  case (CamerasPut ok pid b)
  with assms(3) show ?thesis by (auto simp: rest_writers_signals_unchanged dest: cameras_put_online)
next
  case (CamerasDelete ok pid)
  with assms(3) show ?thesis by (simp add: delete_online rest_writers_signals_unchanged)
next
  case (CamerasPutSettings ok pid b)
  with assms(3) show ?thesis by (simp add: put_settings_online rest_writers_signals_unchanged)
next
  case (AppCamerasPost ok newid now b)
  with assms(3) show ?thesis by (simp add: post_online rest_writers_signals_unchanged)
next
  case (AppCamerasPut ok ok_save now pid b)
  with assms(3) show ?thesis by (auto simp: rest_writers_signals_unchanged dest: app_put_online)
next
  case (AppCamerasDelete ok pid)
  with assms(3) show ?thesis by (simp add: delete_online rest_writers_signals_unchanged)
next
  case (AppSignalsPost ok newid now b)
  with assms(3) show ?thesis by (simp add: post_online rest_writers_cameras_unchanged)
next
  case (AppSignalsPut ok ok_save now pid b)
  with assms(3) show ?thesis by (auto simp: rest_writers_cameras_unchanged dest: app_put_online)
next
  case (AppSignalsDelete ok pid)
  with assms(3) show ?thesis by (simp add: delete_online rest_writers_cameras_unchanged)
next
  case (SimulateCamera sid ok ok_save now u1 u2 u3)
  with assms(1,3) show ?thesis by (auto simp: simulate_unchanged dest: simulate_camera_online)
next
  case (SimulateSignal sid ok ok_save now u1 u2 u3 u4)
  with assms(2,3) show ?thesis by (simp add: simulate_unchanged simulate_signal_online)
qed

theorem online_only_by_cause_witness:
  "online_cause example_env
     (DeviceConnect 7 True 1000
        (JObj [(''type'', JStr ''camera''), (''id'', JStr ''c1''),
               (''apiKey'', JStr ''device-secret'')]))"
proof -
  have d: "distinct (map fst (cameras example_state))" "distinct (map fst (signals example_state))"
    by (simp_all add: example_state_def)
  have b: "becomes_online (cameras example_state)
        (cameras (step example_env
           (DeviceConnect 7 True 1000
              (JObj [(''type'', JStr ''camera''), (''id'', JStr ''c1''),
                     (''apiKey'', JStr ''device-secret'')])) example_state)) (JStr ''c1'') \<or>
      becomes_online (signals example_state)
        (signals (step example_env
           (DeviceConnect 7 True 1000
              (JObj [(''type'', JStr ''camera''), (''id'', JStr ''c1''),
                     (''apiKey'', JStr ''device-secret'')])) example_state)) (JStr ''c1'')"
    by (simp add: becomes_online_def status_of_def deviceConnect_def findByIdAndUpdate_def
        CameraSchema_def join_room_def nullish_def env_value_def example_env_def
        example_state_def Let_def)
  from d b show ?thesis by (rule online_only_by_cause)
qed

end
